theory Spec2Isabelle
  imports Complex_Main
begin

section \<open>JavaScript values and coercions\<close>

text \<open>
  The three services read loosely typed planet records. A field holds one of the
  primitive values below: undefined, null, a boolean, a finite number, NaN or a string.
  Symbols, big integers and objects are not values of the model; their conversion to a
  number or to text can raise, so every statement below is about records whose fields
  are among the values listed. Numbers are modelled as real numbers: \<open>JNum\<close> carries
  a finite number and \<open>JNaN\<close> is the not-a-number value; infinities, rounding to binary
  floating point, overflow and underflow are outside this model.

  Two operations of the language are taken as parameters, bundled in \<open>js_host\<close>: the
  conversion of a string to a number (\<open>None\<close> is NaN) and the printing of a number
  inside a template literal.
\<close>

datatype jsval = JUndefined | JNull | JBool bool | JNum real | JNaN | JStr string

datatype js_error = TypeError

record js_host =
  string_to_number :: "string \<Rightarrow> real option"
  number_to_string :: "real \<Rightarrow> string"

fun truthy :: "jsval \<Rightarrow> bool" where
  "truthy JUndefined = False"
| "truthy JNull = False"
| "truthy (JBool b) = b"
| "truthy (JNum r) = (r \<noteq> 0)"
| "truthy JNaN = False"
| "truthy (JStr s) = (s \<noteq> [])"

text \<open>\<open>Number(v)\<close>; \<open>None\<close> is NaN.\<close>

fun to_number :: "js_host \<Rightarrow> jsval \<Rightarrow> real option" where
  "to_number h JUndefined = None"
| "to_number h JNull = Some 0"
| "to_number h (JBool b) = Some (if b then 1 else 0)"
| "to_number h (JNum r) = Some r"
| "to_number h JNaN = None"
| "to_number h (JStr s) = string_to_number h s"

text \<open>\<open>Number(v) || d\<close>: NaN and zero are falsy, so both give the default.\<close>

definition number_or :: "js_host \<Rightarrow> jsval \<Rightarrow> real \<Rightarrow> real" where
  "number_or h v d = (case to_number h v of None \<Rightarrow> d | Some r \<Rightarrow> if r = 0 then d else r)"

text \<open>The text a value contributes to a template literal.\<close>

fun to_string :: "js_host \<Rightarrow> jsval \<Rightarrow> string" where
  "to_string h JUndefined = ''undefined''"
| "to_string h JNull = ''null''"
| "to_string h (JBool b) = (if b then ''true'' else ''false'')"
| "to_string h (JNum r) = number_to_string h r"
| "to_string h JNaN = ''NaN''"
| "to_string h (JStr s) = s"

text \<open>\<open>v || d\<close> inside a template literal, for a string default \<open>d\<close>.\<close>

definition string_or :: "js_host \<Rightarrow> jsval \<Rightarrow> string \<Rightarrow> string" where
  "string_or h v d = (if truthy v then to_string h v else d)"

text \<open>\<open>s || 1\<close> for a number that is never NaN.\<close>

definition or_one :: "real \<Rightarrow> real" where
  "or_one s = (if s = 0 then 1 else s)"

text \<open>
  \<open>+(x.toFixed(d))\<close>: the nearest multiple of \<open>10^-d\<close>, a tie going to the larger
  magnitude; from \<open>10^21\<close> on, \<open>toFixed\<close> prints the number itself. The code rounds
  the binary double it holds, which at an exact decimal tie can fall on the other side;
  the properties below bound or compare rounded values, or round numbers that are
  multiples of \<open>10^-d\<close> already, and none rests on a tie.
\<close>

definition toFixed :: "nat \<Rightarrow> real \<Rightarrow> real" where
  "toFixed d x =
     (if \<bar>x\<bar> \<ge> 10 ^ 21 then x
      else sgn x * real_of_int \<lfloor>\<bar>x\<bar> * 10 ^ d + 1 / 2\<rfloor> / 10 ^ d)"

text \<open>\<open>Object.values(o).reduce((s, v) => s + v, 0)\<close> on an object kept as an association list.\<close>

definition sum_values :: "('k \<times> real) list \<Rightarrow> real" where
  "sum_values obj = foldl (\<lambda>s v. s + v) 0 (map snd obj)"

definition to_lower_char :: "char \<Rightarrow> char" where
  "to_lower_char c =
     (let n = (of_char c :: nat) in if 65 \<le> n \<and> n \<le> 90 then char_of (n + 32) else c)"

definition toLowerCase :: "string \<Rightarrow> string" where
  "toLowerCase s = map to_lower_char s"

fun includes_str :: "string \<Rightarrow> string \<Rightarrow> bool" where
  "includes_str [] sub = (sub = [])"
| "includes_str (c # cs) sub = (take (length sub) (c # cs) = sub \<or> includes_str cs sub)"

section \<open>Planet records\<close>

record planet =
  name :: jsval
  mass :: jsval
  radius :: jsval
  temperature :: jsval
  atmosphere :: jsval
  orbital_period :: jsval
  distance :: jsval
  follow_up_observations :: jsval
  ai_confidence :: jsval
  habitability_score :: jsval
  confirmed_status :: jsval
  discovery_year :: jsval
  discovery_method :: jsval
  discovery_telescope :: jsval

text \<open>The object \<open>{}\<close>: every field is undefined.\<close>

definition empty_planet :: planet where
  "empty_planet =
     \<lparr>name = JUndefined, mass = JUndefined, radius = JUndefined, temperature = JUndefined,
      atmosphere = JUndefined, orbital_period = JUndefined, distance = JUndefined,
      follow_up_observations = JUndefined, ai_confidence = JUndefined,
      habitability_score = JUndefined, confirmed_status = JUndefined,
      discovery_year = JUndefined, discovery_method = JUndefined,
      discovery_telescope = JUndefined\<rparr>"

section \<open>ExoplanetClassifier\<close>

record featureVector =
  mass_f :: real
  radius_f :: real
  temperature_f :: real
  orbital_period_f :: real
  distance_f :: real
  atmosphere_f :: real
  follow_up_f :: real
  ai_confidence_f :: real

record explanation =
  features :: featureVector
  importances :: "(string \<times> real) list"
  topFactors :: "(string \<times> real) list"

record modelMeta =
  engine :: string
  meta_labels :: "string list"

record classificationResult =
  predictedType :: string
  probabilities :: "(string \<times> real) list"
  confidence :: real
  explanation :: explanation
  modelMeta :: modelMeta

text \<open>
  The classifier instance: the fields its methods read or write. The calibration is
  \<open>Some (a, b)\<close> for a parameter object and \<open>None\<close> for a falsy value, which
  \<open>_calibrate\<close> tests first. The constructor replaces only a missing or null option by
  the pair \<open>(1, 0)\<close>, so a falsy option (false, 0, the empty string) stays.
  The weights, the loading delay and the external model URL are stored by the
  constructor and read by no method.
\<close>

datatype calibration_option = CalibrationMissing | CalibrationFalsy | Platt real real

record classifier =
  modelLoaded :: bool
  calibration :: "(real \<times> real) option"
  cache :: "string \<rightharpoonup> classificationResult"
  labels :: "string list"

definition default_labels :: "string list" where
  "default_labels =
     [''Terrestrial'', ''Super Earth'', ''Mini-Neptune'', ''Gas Giant'', ''Hot Jupiter'',
      ''Ice Giant'', ''Puffy Planet'', ''Ocean World'', ''Desert World'']"

definition new_classifier :: "calibration_option \<Rightarrow> string list option \<Rightarrow> classifier" where
  "new_classifier cal lbls =
     \<lparr>modelLoaded = False,
      calibration =
        (case cal of
           CalibrationMissing \<Rightarrow> Some (1, 0)
         | CalibrationFalsy \<Rightarrow> None
         | Platt a b \<Rightarrow> Some (a, b)),
      cache = Map.empty,
      labels = (case lbls of None \<Rightarrow> default_labels | Some ls \<Rightarrow> ls)\<rparr>"

definition loadModel :: "classifier \<Rightarrow> classifier" where
  "loadModel c = (if modelLoaded c then c else c\<lparr>modelLoaded := True\<rparr>)"

text \<open>The argument of \<open>_hashPlanet\<close> is \<open>None\<close> for \<open>null\<close>.\<close>

definition hashPlanet :: "js_host \<Rightarrow> planet option \<Rightarrow> string" where
  "hashPlanet h po =
     (case po of
        None \<Rightarrow> ''null''
      | Some p \<Rightarrow>
          string_or h (name p) ''unknown'' @ ''|'' @ to_string h (mass p) @ ''|'' @
          to_string h (radius p) @ ''|'' @ to_string h (temperature p) @ ''|'' @
          string_or h (atmosphere p) ''na'')"

definition featureVector :: "js_host \<Rightarrow> planet \<Rightarrow> featureVector" where
  "featureVector h p =
     \<lparr>mass_f = number_or h (mass p) 1,
      radius_f = number_or h (radius p) 1,
      temperature_f = number_or h (temperature p) 288,
      orbital_period_f = number_or h (orbital_period p) 365,
      distance_f = number_or h (distance p) 100,
      atmosphere_f = (if truthy (atmosphere p) \<and> atmosphere p \<noteq> JStr ''Unknown'' then 1 else 0),
      follow_up_f = number_or h (follow_up_observations p) 0,
      ai_confidence_f = number_or h (ai_confidence p) 0.75\<rparr>"

definition calibrate :: "classifier \<Rightarrow> real \<Rightarrow> real" where
  "calibrate c prob =
     (case calibration c of
        None \<Rightarrow> prob
      | Some (a, b) \<Rightarrow>
          (let x = max 0.000001 (min (1 - 0.000001) prob);
               z = a * (x - 0.5) + b
           in 1 / (1 + exp (- z))))"

definition explainFeatures :: "featureVector \<Rightarrow> (string \<times> real) list" where
  "explainFeatures f =
     (let imp =
        [(''temperature'', \<bar>0.5 - exp (- (((temperature_f f - 288) / 60) ^ 2))\<bar>),
         (''mass'', \<bar>ln (max 0.1 (mass_f f)) - ln 1\<bar>),
         (''distance'', min 1 (distance_f f / 500)),
         (''atmosphere'', if atmosphere_f f \<noteq> 0 then 0.1 else 0.02),
         (''follow_up'', min 1 (follow_up_f f / 20))];
          s = or_one (sum_values imp)
      in map (\<lambda>(k, v). (k, toFixed 3 (v / s))) imp)"

text \<open>
  \<open>planet.atmosphere && planet.atmosphere.toLowerCase().includes('h2o')\<close>: a falsy
  atmosphere is falsy; a string is searched; any other truthy value has no method
  \<open>toLowerCase\<close> and the call raises.
\<close>

definition atmosphere_has_h2o :: "jsval \<Rightarrow> js_error + bool" where
  "atmosphere_has_h2o v =
     (if \<not> truthy v then Inr False
      else case v of JStr s \<Rightarrow> Inr (includes_str (toLowerCase s) ''h2o'') | _ \<Rightarrow> Inl TypeError)"

definition base_scores :: "featureVector \<Rightarrow> bool \<Rightarrow> (string \<times> real) list" where
  "base_scores f h2o =
     [(''Terrestrial'', max 0 (0.6 - \<bar>mass_f f - 1\<bar> * 0.12 - \<bar>radius_f f - 1\<bar> * 0.08)),
      (''Super Earth'',
         max 0 (0.25 + (if mass_f f > 1.5 then 0.15 else 0) + (if radius_f f > 1.2 then 0.1 else 0))),
      (''Mini-Neptune'', max 0 (0.12 + (if radius_f f > 1.8 then 0.12 else 0))),
      (''Gas Giant'',
         max 0 ((if mass_f f > 15 then 0.7 else 0.05) + (if radius_f f > 3 then 0.2 else 0))),
      (''Hot Jupiter'', max 0 (if orbital_period_f f < 10 then 0.4 else 0.01)),
      (''Ice Giant'', max 0 (if temperature_f f < 180 then 0.25 else 0.01)),
      (''Puffy Planet'', max 0 (if mass_f f < 10 \<and> radius_f f > 6 then 0.2 else 0.01)),
      (''Ocean World'', max 0 (if h2o then 0.35 else 0.02)),
      (''Desert World'', max 0 (if temperature_f f > 400 then 0.2 else 0.02))]"

definition probsRaw :: "(string \<times> real) list \<Rightarrow> (string \<times> real) list" where
  "probsRaw base = (let s = or_one (sum_values base) in map (\<lambda>(k, v). (k, v / s)) base)"

definition smoothed_probs :: "classifier \<Rightarrow> featureVector \<Rightarrow> (string \<times> real) list \<Rightarrow> (string \<times> real) list" where
  "smoothed_probs c f raw =
     (let sm = map (\<lambda>(k, r). (k, calibrate c (r * (0.6 + 0.4 * ai_confidence_f f)))) raw;
          s2 = or_one (sum_values sm)
      in map (\<lambda>(k, v). (k, toFixed 4 (v / s2))) sm)"

text \<open>
  \<open>Object.entries(smoothed).sort((a, b) => b[1] - a[1])\<close>: a stable sort, larger
  probability first.
\<close>

definition sorted_entries :: "(string \<times> real) list \<Rightarrow> (string \<times> real) list" where
  "sorted_entries sm = sort_key (\<lambda>e. - snd e) sm"

text \<open>The body of \<open>classifyPlanet\<close> after a cache miss, up to the result object.\<close>

definition classify_fresh :: "js_host \<Rightarrow> classifier \<Rightarrow> planet \<Rightarrow> js_error + classificationResult" where
  "classify_fresh h c p =
     (let f = featureVector h p in
      case atmosphere_has_h2o (atmosphere p) of
        Inl e \<Rightarrow> Inl e
      | Inr h2o \<Rightarrow>
          (let sm = smoothed_probs c f (probsRaw (base_scores f h2o));
               entries = sorted_entries sm
           in case entries of
                [] \<Rightarrow> Inl TypeError
              | e0 # _ \<Rightarrow>
                  (let conf = min 0.999 (0.45 + snd e0 * 0.45 + (ai_confidence_f f - 0.7) * 0.25)
                   in Inr \<lparr>predictedType = fst e0,
                           probabilities = sm,
                           confidence = toFixed 3 conf,
                           explanation =
                             \<lparr>features = f,
                              importances = explainFeatures f,
                              topFactors = map (\<lambda>e. (fst e, toFixed 4 (snd e))) (take 3 entries)\<rparr>,
                           modelMeta = \<lparr>engine = ''heuristic-sim-v2'', meta_labels = labels c\<rparr>\<rparr>)))"

text \<open>
  \<open>classifyPlanet\<close>: the model is loaded, the cache is consulted by fingerprint, and a
  miss computes and stores the result. The classifier after the call is returned with
  the outcome; an exception leaves the cache as it was. A \<open>null\<close> argument is \<open>None\<close>:
  its fingerprint is looked up, and on a miss \<open>_featureVector\<close> reads a field of
  \<open>null\<close> and raises.
\<close>

definition classifyPlanet ::
  "js_host \<Rightarrow> classifier \<Rightarrow> planet option \<Rightarrow> (js_error + classificationResult) \<times> classifier" where
  "classifyPlanet h c po =
     (let c1 = (if \<not> modelLoaded c then loadModel c else c);
          key = hashPlanet h po
      in case cache c1 key of
           Some r \<Rightarrow> (Inr r, c1)
         | None \<Rightarrow>
             (case po of
                None \<Rightarrow> (Inl TypeError, c1)
              | Some p \<Rightarrow>
                  (case classify_fresh h c1 p of
                     Inl e \<Rightarrow> (Inl e, c1)
                   | Inr r \<Rightarrow> (Inr r, c1\<lparr>cache := (cache c1)(key \<mapsto> r)\<rparr>))))"

definition clearCache :: "classifier \<Rightarrow> classifier" where
  "clearCache c = c\<lparr>cache := Map.empty\<rparr>"


section \<open>PredictiveAnalytics\<close>

text \<open>
  The priority score of a planet. The discovery-trend forecast of the same class is not
  modelled: its outputs are decided by double-precision rounding, which a model over
  the real numbers does not reproduce.
\<close>

definition calculatePriorityScore :: "js_host \<Rightarrow> planet \<Rightarrow> real" where
  "calculatePriorityScore h p =
     (let habitScore = number_or h (habitability_score p) 0;
          aiConfidence = number_or h (ai_confidence p) 0.7;
          followUps = min 1 (number_or h (follow_up_observations p) 0 / 20);
          distancePenalty = exp (- (min 1500 (number_or h (distance p) 100)) / 500);
          novelty = (if confirmed_status p = JStr ''Candidate'' then 0.12 else 0);
          score = max 0 (min 0.999
                    (habitScore * 0.5 + aiConfidence * 0.2 + followUps * 0.1 +
                     distancePenalty * 0.08 + novelty))
      in toFixed 3 score)"

section \<open>SpectroscopyAI\<close>

text \<open>
  A spectral sample is a triple of numbers. Smoothing adds \<open>intensity_smoothed\<close> to each
  point, normalisation adds \<open>continuum\<close> and \<open>intensity_norm\<close>.
\<close>

record sample =
  wavelength :: real
  intensity :: real
  snr :: real

record smoothed_sample = sample +
  intensity_smoothed :: real

record normalized_sample = smoothed_sample +
  continuum :: real
  intensity_norm :: real

text \<open>The first argument of \<open>analyzeSpectrum\<close>: an array of samples, or anything else.\<close>

datatype spectral_input = NotAnArray | Samples "sample list"

record spectroscopyAI =
  minSnrForDetection :: real
  processingDelayMs :: real
  smoothingWindow :: nat
  polyOrder :: nat
  templateWindows :: "(string \<times> (real \<times> real) list) list"

definition moleculeWindows :: "(string \<times> (real \<times> real) list) list" where
  "moleculeWindows =
     [(''H2O'', [(590, 600), (650, 662), (720, 740), (940, 980)]),
      (''CO2'', [(660, 672), (720, 740), (1400, 1600)]),
      (''CH4'', [(530, 555), (780, 805), (1200, 1300)]),
      (''O2'', [(687, 695), (760, 770)]),
      (''N2'', [(516, 532)]),
      (''SO2'', [(400, 430), (280, 320)]),
      (''NH3'', [(645, 665), (1000, 1080)]),
      (''Na'', [(588, 590)]),
      (''K'', [(766, 770)]),
      (''O3'', [(255, 320)])]"

definition new_spectroscopyAI ::
  "real option \<Rightarrow> real option \<Rightarrow> nat option \<Rightarrow> nat option \<Rightarrow> spectroscopyAI" where
  "new_spectroscopyAI minSnr delay window order =
     \<lparr>minSnrForDetection = (case minSnr of None \<Rightarrow> 8 | Some x \<Rightarrow> x),
      processingDelayMs = (case delay of None \<Rightarrow> 120 | Some x \<Rightarrow> x),
      smoothingWindow = (case window of None \<Rightarrow> 7 | Some n \<Rightarrow> n),
      polyOrder = (case order of None \<Rightarrow> 3 | Some n \<Rightarrow> n),
      templateWindows = moleculeWindows\<rparr>"

definition with_smoothed :: "sample \<Rightarrow> real \<Rightarrow> smoothed_sample" where
  "with_smoothed v x =
     \<lparr>wavelength = wavelength v, intensity = intensity v, snr = snr v, intensity_smoothed = x\<rparr>"

text \<open>\<open>y.slice(start, end + 1)\<close> for \<open>start \<le> end\<close>.\<close>

definition slice_incl :: "nat \<Rightarrow> nat \<Rightarrow> 'a list \<Rightarrow> 'a list" where
  "slice_incl start end xs = take (end + 1 - start) (drop start xs)"

text \<open>
  \<open>_savitzkyGolay\<close> on an array: a short array is copied, a longer one gets a centred
  moving average. The subtraction \<open>idx - half\<close> on natural numbers stops at zero, which
  is \<open>Math.max(0, idx - half)\<close>. The polynomial order is not used.
\<close>

definition savitzkyGolay :: "sample list \<Rightarrow> nat \<Rightarrow> nat \<Rightarrow> smoothed_sample list" where
  "savitzkyGolay y window order =
     (if length y < window then map (\<lambda>v. with_smoothed v (intensity v)) y
      else
        (let half = window div 2 in
         map (\<lambda>idx.
                (let start = idx - half;
                     end = min (length y - 1) (idx + half);
                     slice = slice_incl start end y;
                     avg = foldl (\<lambda>s q. s + intensity q) 0 slice / real (length slice)
                 in with_smoothed (y ! idx) (toFixed 6 avg)))
             [0 ..< length y]))"

text \<open>\<open>Math.floor(n / 20) | 1\<close>: the quotient with its lowest bit set.\<close>

definition default_envelope_window :: "nat \<Rightarrow> nat" where
  "default_envelope_window n = max 11 (let q = n div 20 in if even q then q + 1 else q)"

text \<open>\<open>Math.floor(len * 0.9)\<close>.\<close>

definition percentile_index :: "nat \<Rightarrow> nat" where
  "percentile_index len = (9 * len) div 10"

definition continuumEnvelope :: "smoothed_sample list \<Rightarrow> nat option \<Rightarrow> real list" where
  "continuumEnvelope data win =
     (if data = [] then []
      else
        (let n = length data;
             window = (case win of
                         None \<Rightarrow> default_envelope_window n
                       | Some w \<Rightarrow> if w = 0 then default_envelope_window n else w);
             half = window div 2
         in map (\<lambda>i.
                   (let start = i - half;
                        end = min (n - 1) (i + half);
                        slice = sort (map intensity_smoothed (slice_incl start end data));
                        idx = percentile_index (length slice)
                    in max 0.000001 (slice ! idx)))
                [0 ..< n]))"

definition normalize :: "smoothed_sample list \<Rightarrow> normalized_sample list" where
  "normalize data =
     (if data = [] then []
      else
        (let envelope = continuumEnvelope data None in
         map (\<lambda>(p, e).
                \<lparr>wavelength = wavelength p, intensity = intensity p, snr = snr p,
                 intensity_smoothed = intensity_smoothed p,
                 continuum = e, intensity_norm = toFixed 6 (intensity p / e)\<rparr>)
             (zip data envelope)))"

text \<open>\<open>p.intensity_norm || p.intensity\<close>: a normalised intensity of zero is falsy.\<close>

definition norm_or_raw :: "normalized_sample \<Rightarrow> real" where
  "norm_or_raw p = (if intensity_norm p \<noteq> 0 then intensity_norm p else intensity p)"

definition equivalentWidth :: "normalized_sample list \<Rightarrow> real" where
  "equivalentWidth dataInWindow =
     (if length dataInWindow < 2 then 0
      else
        toFixed 4
          (foldl (\<lambda>ew (p0, p1).
                    (let y0 = 1 - min 1 (norm_or_raw p0);
                         y1 = 1 - min 1 (norm_or_raw p1);
                         width = \<bar>wavelength p1 - wavelength p0\<bar>
                     in ew + max 0 ((y0 + y1) / 2 * width)))
                 0 (zip dataInWindow (tl dataInWindow))))"

record detection =
  ew :: real
  meanSnr :: real
  absorptionFraction :: real
  detected :: bool
  points :: nat

definition detectInRange ::
  "spectroscopyAI \<Rightarrow> normalized_sample list \<Rightarrow> real \<Rightarrow> real \<Rightarrow> detection option" where
  "detectInRange ai spectralData minW maxW =
     (let window = filter (\<lambda>p. wavelength p \<ge> minW \<and> wavelength p \<le> maxW) spectralData in
      if window = [] then None
      else
        (let mean = foldl (\<lambda>s p. s + snr p) 0 window / real (length window);
             w = equivalentWidth window;
             fraction = real (length (filter (\<lambda>p. norm_or_raw p < 0.98) window)) /
                        real (length window);
             det = (mean \<ge> minSnrForDetection ai \<and> w > 0.01 \<and> fraction > 0.06)
         in Some \<lparr>ew = toFixed 4 w, meanSnr = toFixed 2 mean,
                  absorptionFraction = toFixed 3 fraction, detected = det,
                  points = length window\<rparr>))"

record match_info =
  match_detected :: bool
  match_confidence :: real
  match_windows :: "detection list"

definition matchMolecule ::
  "spectroscopyAI \<Rightarrow> normalized_sample list \<Rightarrow> (real \<times> real) list \<Rightarrow> match_info" where
  "matchMolecule ai normData ranges =
     (let perRange = List.map_filter (\<lambda>r. detectInRange ai normData (fst r) (snd r)) ranges in
      if perRange = [] then \<lparr>match_detected = False, match_confidence = 0, match_windows = []\<rparr>
      else
        (let winsDetected = length (filter detected perRange);
             sumEW = foldl (\<lambda>s p. s + ew p) 0 perRange;
             avg = foldl (\<lambda>s p. s + meanSnr p) 0 perRange / real (length perRange);
             conf = tanh (real winsDetected * 0.8 + min 3 sumEW * 0.18 + min 1 (avg / 50) * 0.4);
             conf' = (if avg < minSnrForDetection ai then conf * 0.5 else conf)
         in \<lparr>match_detected = (winsDetected > 0), match_confidence = toFixed 3 conf',
             match_windows = perRange\<rparr>))"

definition matchTemplates ::
  "spectroscopyAI \<Rightarrow> normalized_sample list \<Rightarrow> (string \<times> match_info) list" where
  "matchTemplates ai normData =
     map (\<lambda>(mol, ranges). (mol, matchMolecule ai normData ranges)) (templateWindows ai)"

record detected_molecule =
  molecule :: string
  molecule_confidence :: real
  windows :: "detection list"

record spectral_features =
  absorptionLines :: nat
  avgSnr :: real
  spectralPoints :: nat

record biosignature =
  level :: string
  reason :: string

text \<open>The fields only the full result has; the one-line summary text is left out.\<close>

record spectrum_details =
  perMoleculeDetails :: "detected_molecule list"
  processingTimeMs :: real
  syntheticModel :: "(real \<times> real) list"
  normalizedData :: "normalized_sample list"

record spectrum_result =
  detectedMolecules :: "detected_molecule list"
  moleculeConfidences :: "(string \<times> real) list"
  spectral_features :: spectral_features
  biosignaturePotential :: biosignature
  recommendations :: "string list"
  overall_confidence :: real
  details :: "spectrum_details option"

definition to_upper_char :: "char \<Rightarrow> char" where
  "to_upper_char c =
     (let n = (of_char c :: nat) in if 97 \<le> n \<and> n \<le> 122 then char_of (n - 32) else c)"

definition toUpperCase :: "string \<Rightarrow> string" where
  "toUpperCase s = map to_upper_char s"

text \<open>\<open>Object.fromEntries\<close>: the last entry of a key wins.\<close>

definition fromEntries :: "('k \<times> 'v) list \<Rightarrow> ('k \<rightharpoonup> 'v)" where
  "fromEntries es = map_of (rev es)"

text \<open>
  \<open>suggestFollowUps\<close>: the analysis is \<open>None\<close> when it or its features are missing,
  else the average signal-to-noise ratio and the biosignature level if there is one; the
  planet is \<open>None\<close> for \<open>null\<close>.
\<close>

definition suggestFollowUps ::
  "js_host \<Rightarrow> (real \<times> string option) option \<Rightarrow> planet option \<Rightarrow> string list" where
  "suggestFollowUps h analysis po =
     (case analysis of
        None \<Rightarrow> [''Acquire baseline spectrum.'']
      | Some (avg, lvl) \<Rightarrow>
          (if avg < 10
           then [''Increase exposure time to reach avg S/N > 15 or co-add more transits.'']
           else []) @
          (if lvl = Some ''High'' then [''Immediate multi-epoch high-resolution follow-up.'']
           else []) @
          [''Observe reference stars to remove telluric features.''] @
          (case po of
             None \<Rightarrow> []
           | Some p \<Rightarrow>
               (if truthy (distance p) \<and>
                   (case to_number h (distance p) of None \<Rightarrow> False | Some d \<Rightarrow> d > 500)
                then [''Use space-based instruments (JWST) for highest sensitivity.'']
                else [])))"

text \<open>The biosignature heuristic of \<open>analyzeSpectrum\<close>, on the detected molecules.\<close>

definition has_molecule :: "detected_molecule list \<Rightarrow> string \<Rightarrow> bool" where
  "has_molecule dm m =
     (let present = fromEntries (map (\<lambda>d. (toUpperCase (molecule d), molecule_confidence d)) dm)
      in case present (toUpperCase m) of
           None \<Rightarrow> False
         | Some v \<Rightarrow> v \<noteq> 0 \<and> v > 0.25)"

definition biosignature_of :: "spectroscopyAI \<Rightarrow> detected_molecule list \<Rightarrow> real \<Rightarrow> biosignature" where
  "biosignature_of ai dm avg =
     (if has_molecule dm ''O2'' \<and> has_molecule dm ''CH4''
      then \<lparr>level = ''High'', reason = ''Possible disequilibrium (O2 + CH4)''\<rparr>
      else if has_molecule dm ''H2O'' \<and> (has_molecule dm ''CO2'' \<or> has_molecule dm ''N2'')
      then \<lparr>level = ''Medium'', reason = ''Water + major background gas detected''\<rparr>
      else if length dm \<ge> 3 \<and> avg > 12
      then \<lparr>level = ''Medium'', reason = ''Multiple species with good S/N''\<rparr>
      else if avg < minSnrForDetection ai
      then \<lparr>level = ''Low'', reason = ''Low average S/N''\<rparr>
      else \<lparr>level = ''Low'', reason = ''No clear biosignature pattern''\<rparr>)"

text \<open>The loop of \<open>analyzeSpectrum\<close> that collects the detected molecules.\<close>

definition detected_of :: "(string \<times> match_info) list \<Rightarrow> detected_molecule list" where
  "detected_of matches =
     List.map_filter
       (\<lambda>(mol, info).
          if match_detected info \<and> match_confidence info > 0.2
          then Some \<lparr>molecule = mol, molecule_confidence = match_confidence info,
                      windows = match_windows info\<rparr>
          else None)
       matches"

definition no_data_result :: spectrum_result where
  "no_data_result =
     \<lparr>detectedMolecules = [], moleculeConfidences = [],
      spectral_features = \<lparr>absorptionLines = 0, avgSnr = 0, spectralPoints = 0\<rparr>,
      biosignaturePotential = \<lparr>level = ''Low'', reason = ''No data''\<rparr>,
      recommendations = [], overall_confidence = 0, details = None\<rparr>"

definition analyzeSpectrum ::
  "js_host \<Rightarrow> spectroscopyAI \<Rightarrow> spectral_input \<Rightarrow> planet option \<Rightarrow> spectrum_result" where
  "analyzeSpectrum h ai spectralData po =
     (case spectralData of
        NotAnArray \<Rightarrow> no_data_result
      | Samples [] \<Rightarrow> no_data_result
      | Samples (s0 # ss) \<Rightarrow>
          (let smoothed = savitzkyGolay (s0 # ss) (smoothingWindow ai) (polyOrder ai);
               normalized = normalize smoothed;
               avg = foldl (\<lambda>s p. s + snr p) 0 normalized / real (length normalized);
               absorptionCount = length (filter (\<lambda>p. norm_or_raw p < 0.98) normalized);
               matches = matchTemplates ai normalized;
               dm = detected_of matches;
               bio = biosignature_of ai dm avg;
               meanMoleculeConfidence =
                 (if dm \<noteq> [] then foldl (\<lambda>s d. s + molecule_confidence d) 0 dm / real (length dm)
                  else 0);
               overallConfidence = min 0.999 (max 0.05 (0.2 * (avg / 40) + 0.75 * meanMoleculeConfidence))
           in \<lparr>detectedMolecules = dm,
               moleculeConfidences = map (\<lambda>(mol, info). (mol, match_confidence info)) matches,
               spectral_features =
                 \<lparr>absorptionLines = absorptionCount, avgSnr = toFixed 2 avg,
                  spectralPoints = length normalized\<rparr>,
               biosignaturePotential = bio,
               recommendations = suggestFollowUps h (Some (avg, Some (level bio))) po,
               overall_confidence = toFixed 3 overallConfidence,
               details =
                 Some \<lparr>perMoleculeDetails = dm,
                       processingTimeMs = processingDelayMs ai,
                       syntheticModel =
                         map (\<lambda>p. (wavelength p,
                                    toFixed 6 (intensity_norm p + 0.01 * sin (wavelength p / 10))))
                             normalized,
                       normalizedData = normalized\<rparr>\<rparr>))"

section \<open>Inputs of the closed examples\<close>

text \<open>
  The closed examples fix a host. It reads no string as a number and prints every number
  as the same mark; the examples pass numbers as numbers and compare fingerprints of
  records that agree on the printed fields, so another host gives the same outcomes.
\<close>

definition stub_host :: js_host where
  "stub_host = \<lparr>string_to_number = (\<lambda>s. None), number_to_string = (\<lambda>r. ''#'')\<rparr>"

section \<open>The contract of a classification result\<close>


section \<open>The Earth-like scenario\<close>

definition scenario_planet :: planet where
  "scenario_planet =
     empty_planet\<lparr>mass := JNum 1.0, radius := JNum 1.0, temperature := JNum 288,
                  orbital_period := JNum 365, distance := JNum 50,
                  atmosphere := JStr ''N2/O2'', ai_confidence := JNum 0.9\<rparr>"

section \<open>A spectrum with absorption in a methane and an oxygen window\<close>

definition sample_spectrum :: "sample list" where
  "sample_spectrum =
     [\<lparr>wavelength = 540, intensity = 0.5, snr = 50\<rparr>,
      \<lparr>wavelength = 545, intensity = 0.5, snr = 50\<rparr>,
      \<lparr>wavelength = 690, intensity = 0.5, snr = 50\<rparr>,
      \<lparr>wavelength = 692, intensity = 1, snr = 50\<rparr>]"

section \<open>The classifier's cache\<close>

lemma calibrate_cong: "calibration c' = calibration c \<Longrightarrow> calibrate c' = calibrate c"
  by (simp add: calibrate_def fun_eq_iff)

lemma smoothed_probs_cong:
  "calibration c' = calibration c \<Longrightarrow> smoothed_probs c' = smoothed_probs c"
  using calibrate_cong[of c' c] by (simp add: smoothed_probs_def fun_eq_iff)

lemma classify_fresh_cong:
  assumes "calibration c' = calibration c" and "labels c' = labels c"
  shows "classify_fresh h c' p = classify_fresh h c p"
proof -
  have s: "smoothed_probs c' = smoothed_probs c"
    using assms(1) by (rule smoothed_probs_cong)
  show ?thesis unfolding classify_fresh_def s assms(2) by (rule refl)
qed

lemma ensure_loaded: "(if \<not> modelLoaded c then loadModel c else c) = c\<lparr>modelLoaded := True\<rparr>"
  by (cases c) (simp add: loadModel_def)

text \<open>The three ways out of \<open>classifyPlanet\<close>: a hit, an exception, a stored fresh result.\<close>

lemma classifyPlanet_unfold:
  "classifyPlanet h c po =
     (case cache c (hashPlanet h po) of
        Some r \<Rightarrow> (Inr r, c\<lparr>modelLoaded := True\<rparr>)
      | None \<Rightarrow>
          (case po of
             None \<Rightarrow> (Inl TypeError, c\<lparr>modelLoaded := True\<rparr>)
           | Some p \<Rightarrow>
               (case classify_fresh h c p of
                  Inl e \<Rightarrow> (Inl e, c\<lparr>modelLoaded := True\<rparr>)
                | Inr r \<Rightarrow> (Inr r, c\<lparr>modelLoaded := True, cache := (cache c)(hashPlanet h po \<mapsto> r)\<rparr>))))"
proof -
  have f: "classify_fresh h (c\<lparr>modelLoaded := True\<rparr>) p = classify_fresh h c p" for p
    by (rule classify_fresh_cong) simp_all
  show ?thesis
    unfolding classifyPlanet_def ensure_loaded Let_def f
    by (simp split: option.splits sum.splits)
qed

lemma classifyPlanet_hit:
  "cache c (hashPlanet h po) = Some r \<Longrightarrow>
   classifyPlanet h c po = (Inr r, c\<lparr>modelLoaded := True\<rparr>)"
  by (simp add: classifyPlanet_unfold)

lemma classifyPlanet_loaded: "modelLoaded (snd (classifyPlanet h c po))"
  by (simp add: classifyPlanet_unfold split: option.splits sum.splits)

lemma classifyPlanet_cached:
  "fst (classifyPlanet h c po) = Inr r \<Longrightarrow>
   cache (snd (classifyPlanet h c po)) (hashPlanet h po) = Some r"
  by (auto simp add: classifyPlanet_unfold split: option.splits sum.splits)

lemma classifyPlanet_again:
  assumes "fst (classifyPlanet h c po) = Inr r" and "hashPlanet h po' = hashPlanet h po"
  shows "classifyPlanet h (snd (classifyPlanet h c po)) po' = (Inr r, snd (classifyPlanet h c po))"
proof -
  let ?c1 = "snd (classifyPlanet h c po)"
  have "cache ?c1 (hashPlanet h po') = Some r"
    using classifyPlanet_cached[OF assms(1)] assms(2) by simp
  then have "classifyPlanet h ?c1 po' = (Inr r, ?c1\<lparr>modelLoaded := True\<rparr>)"
    by (rule classifyPlanet_hit)
  moreover have "?c1\<lparr>modelLoaded := True\<rparr> = ?c1"
    using classifyPlanet_loaded[of h c po] by (cases ?c1) simp
  ultimately show ?thesis by simp
qed

lemma classifyPlanet_after_clear:
  "fst (classifyPlanet h (clearCache c) (Some p)) = classify_fresh h c p"
proof -
  have "classify_fresh h (clearCache c) p = classify_fresh h c p"
    by (rule classify_fresh_cong) (simp_all add: clearCache_def)
  then show ?thesis
    by (simp add: classifyPlanet_unfold clearCache_def split: sum.splits)
qed

subsection \<open>A fresh classification returns unless the atmosphere is a truthy non-string\<close>

lemma length_base_scores: "length (base_scores f b) = 9"
  by (simp add: base_scores_def)

lemma length_probsRaw: "length (probsRaw base) = length base"
  by (simp add: probsRaw_def Let_def)

lemma length_smoothed_probs: "length (smoothed_probs c f raw) = length raw"
  by (simp add: smoothed_probs_def Let_def)

lemma length_sorted_entries: "length (sorted_entries sm) = length sm"
  by (simp add: sorted_entries_def)

lemma classify_fresh_returns:
  assumes "atmosphere_has_h2o (atmosphere p) = Inr b"
  shows "\<exists>e rest.
           sorted_entries (smoothed_probs c (featureVector h p)
             (probsRaw (base_scores (featureVector h p) b))) = e # rest \<and>
           classify_fresh h c p =
             Inr \<lparr>predictedType = fst e,
                  probabilities = smoothed_probs c (featureVector h p)
                    (probsRaw (base_scores (featureVector h p) b)),
                  confidence = toFixed 3 (min 0.999 (0.45 + snd e * 0.45 +
                    (ai_confidence_f (featureVector h p) - 0.7) * 0.25)),
                  explanation =
                    \<lparr>features = featureVector h p,
                     importances = explainFeatures (featureVector h p),
                     topFactors = map (\<lambda>e. (fst e, toFixed 4 (snd e))) (take 3 (e # rest))\<rparr>,
                  modelMeta = \<lparr>engine = ''heuristic-sim-v2'', meta_labels = labels c\<rparr>\<rparr>"
proof -
  let ?sm = "smoothed_probs c (featureVector h p) (probsRaw (base_scores (featureVector h p) b))"
  have "length (sorted_entries ?sm) = 9"
    by (simp add: length_sorted_entries length_smoothed_probs length_probsRaw length_base_scores)
  then obtain e rest where e: "sorted_entries ?sm = e # rest"
    by (cases "sorted_entries ?sm") simp_all
  show ?thesis
    unfolding classify_fresh_def Let_def assms
    by (intro exI[of _ e] exI[of _ rest]) (simp add: e)
qed

lemma atmosphere_has_h2o_ok:
  "\<not> truthy v \<or> (\<exists>s. v = JStr s) \<Longrightarrow> \<exists>b. atmosphere_has_h2o v = Inr b"
  by (auto simp add: atmosphere_has_h2o_def)

lemma atmosphere_has_h2o_raises:
  "truthy v \<Longrightarrow> \<forall>s. v \<noteq> JStr s \<Longrightarrow> atmosphere_has_h2o v = Inl TypeError"
  by (cases v) (simp_all add: atmosphere_has_h2o_def)

lemma classify_fresh_ok:
  assumes "\<not> truthy (atmosphere p) \<or> (\<exists>s. atmosphere p = JStr s)"
  shows "\<exists>r. classify_fresh h c p = Inr r"
proof -
  obtain b where "atmosphere_has_h2o (atmosphere p) = Inr b"
    using atmosphere_has_h2o_ok[OF assms] by blast
  then show ?thesis
    using classify_fresh_returns[of p b c h] by blast
qed

lemma classifyPlanet_ok:
  assumes "\<not> truthy (atmosphere p) \<or> (\<exists>s. atmosphere p = JStr s)"
  shows "\<exists>r. fst (classifyPlanet h c (Some p)) = Inr r"
proof -
  obtain r where "classify_fresh h c p = Inr r"
    using classify_fresh_ok[OF assms] by blast
  then show ?thesis
    by (simp add: classifyPlanet_unfold split: option.splits)
qed

section \<open>Claims\<close>

text \<open>
  C3. Cache idempotence. When a call of \<open>classifyPlanet\<close> returns a result, a following
  call whose argument has the same fingerprint returns that same result and leaves the
  classifier as it is. After \<open>clearCache\<close> a call computes the result afresh from its own
  argument. \<open>clearCache\<close> empties the cache and changes no other field.
\<close>

theorem classifyPlanet_cache_idempotent:
  "(fst (classifyPlanet h c po) = Inr r \<and> hashPlanet h po' = hashPlanet h po \<longrightarrow>
      classifyPlanet h (snd (classifyPlanet h c po)) po' = (Inr r, snd (classifyPlanet h c po))) \<and>
   fst (classifyPlanet h (clearCache c) (Some p)) = classify_fresh h c p \<and>
   cache (clearCache c) = Map.empty \<and>
   modelLoaded (clearCache c) = modelLoaded c \<and>
   calibration (clearCache c) = calibration c \<and>
   labels (clearCache c) = labels c"
  using classifyPlanet_again[of h c po r po'] classifyPlanet_after_clear[of h c p]
  by (simp add: clearCache_def)

theorem classifyPlanet_cache_idempotent_witness:
  "(\<exists>r. fst (classifyPlanet stub_host (new_classifier CalibrationMissing None) (Some empty_planet)) = Inr r) \<and>
   hashPlanet stub_host (Some (empty_planet\<lparr>ai_confidence := JNum 0.9\<rparr>)) =
     hashPlanet stub_host (Some empty_planet) \<and>
   classifyPlanet stub_host
     (snd (classifyPlanet stub_host (new_classifier CalibrationMissing None) (Some empty_planet)))
     (Some (empty_planet\<lparr>ai_confidence := JNum 0.9\<rparr>)) =
   classifyPlanet stub_host (new_classifier CalibrationMissing None) (Some empty_planet)"
proof -
  let ?c = "new_classifier CalibrationMissing None"
  have ok: "\<not> truthy (atmosphere empty_planet) \<or> (\<exists>s. atmosphere empty_planet = JStr s)"
    by (simp add: empty_planet_def)
  obtain r where r: "fst (classifyPlanet stub_host ?c (Some empty_planet)) = Inr r"
    using classifyPlanet_ok[OF ok] by blast
  have hk: "hashPlanet stub_host (Some (empty_planet\<lparr>ai_confidence := JNum 0.9\<rparr>)) =
              hashPlanet stub_host (Some empty_planet)"
    by (simp add: hashPlanet_def)
  have "classifyPlanet stub_host (snd (classifyPlanet stub_host ?c (Some empty_planet)))
          (Some (empty_planet\<lparr>ai_confidence := JNum 0.9\<rparr>)) =
        (Inr r, snd (classifyPlanet stub_host ?c (Some empty_planet)))"
    using classifyPlanet_cache_idempotent
      [of stub_host ?c "Some empty_planet" r "Some (empty_planet\<lparr>ai_confidence := JNum 0.9\<rparr>)"]
      r hk by blast
  moreover have "(Inr r, snd (classifyPlanet stub_host ?c (Some empty_planet))) =
                 classifyPlanet stub_host ?c (Some empty_planet)"
    using r by (metis prod.collapse)
  ultimately show ?thesis using r hk by auto
qed

text \<open>
  C5. On a first argument that is not an array, and on the empty array,
  \<open>analyzeSpectrum\<close> returns the fixed result with no detected molecule, no molecule
  confidence, confidence zero and the biosignature level Low for the reason No data,
  whatever the planet argument is.
\<close>

theorem analyzeSpectrum_no_data:
  "(let r = analyzeSpectrum h ai NotAnArray po in
      detectedMolecules r = [] \<and> moleculeConfidences r = [] \<and> overall_confidence r = 0 \<and>
      biosignaturePotential r = \<lparr>level = ''Low'', reason = ''No data''\<rparr>) \<and>
   (let r = analyzeSpectrum h ai (Samples []) po in
      detectedMolecules r = [] \<and> moleculeConfidences r = [] \<and> overall_confidence r = 0 \<and>
      biosignaturePotential r = \<lparr>level = ''Low'', reason = ''No data''\<rparr>)"
  by (simp add: analyzeSpectrum_def no_data_result_def)

text \<open>
  C9. On an array with fewer points than the smoothing window, \<open>_savitzkyGolay\<close> returns
  as many points as it was given; each keeps its wavelength, intensity and
  signal-to-noise ratio, and its smoothed intensity is its raw intensity.
\<close>

theorem savitzkyGolay_short:
  assumes "length y < window"
  shows "length (savitzkyGolay y window order) = length y \<and>
         (\<forall>i < length y.
            intensity_smoothed (savitzkyGolay y window order ! i) = intensity (y ! i) \<and>
            intensity (savitzkyGolay y window order ! i) = intensity (y ! i) \<and>
            wavelength (savitzkyGolay y window order ! i) = wavelength (y ! i) \<and>
            snr (savitzkyGolay y window order ! i) = snr (y ! i))"
  using assms by (simp add: savitzkyGolay_def with_smoothed_def)

theorem savitzkyGolay_short_witness:
  "length (savitzkyGolay [\<lparr>wavelength = 500, intensity = 0.9, snr = 20\<rparr>,
                          \<lparr>wavelength = 501, intensity = 0.7, snr = 21\<rparr>] 7 3) = 2 \<and>
   intensity_smoothed
     (savitzkyGolay [\<lparr>wavelength = 500, intensity = 0.9, snr = 20\<rparr>,
                     \<lparr>wavelength = 501, intensity = 0.7, snr = 21\<rparr>] 7 3 ! 0) = 0.9 \<and>
   intensity_smoothed
     (savitzkyGolay [\<lparr>wavelength = 500, intensity = 0.9, snr = 20\<rparr>,
                     \<lparr>wavelength = 501, intensity = 0.7, snr = 21\<rparr>] 7 3 ! 1) = 0.7"
proof -
  let ?y = "[\<lparr>wavelength = 500, intensity = 0.9, snr = 20\<rparr>,
             \<lparr>wavelength = 501, intensity = 0.7, snr = (21::real)\<rparr>]"
  have l: "length ?y < 7" by simp
  have "length (savitzkyGolay ?y 7 3) = length ?y \<and>
        (\<forall>i < length ?y.
            intensity_smoothed (savitzkyGolay ?y 7 3 ! i) = intensity (?y ! i) \<and>
            intensity (savitzkyGolay ?y 7 3 ! i) = intensity (?y ! i) \<and>
            wavelength (savitzkyGolay ?y 7 3 ! i) = wavelength (?y ! i) \<and>
            snr (savitzkyGolay ?y 7 3 ! i) = snr (?y ! i))"
    using l by (rule savitzkyGolay_short)
  then have a: "length (savitzkyGolay ?y 7 3) = length ?y"
    and b: "\<And>i. i < length ?y \<Longrightarrow>
              intensity_smoothed (savitzkyGolay ?y 7 3 ! i) = intensity (?y ! i)"
    by blast+
  have "intensity_smoothed (savitzkyGolay ?y 7 3 ! 0) = intensity (?y ! 0)"
    by (rule b) simp
  moreover have "intensity_smoothed (savitzkyGolay ?y 7 3 ! 1) = intensity (?y ! 1)"
    by (rule b) simp
  ultimately show ?thesis using a by simp
qed

lemma hashPlanet_fields:
  "name p2 = name p1 \<Longrightarrow> mass p2 = mass p1 \<Longrightarrow> radius p2 = radius p1 \<Longrightarrow>
   temperature p2 = temperature p1 \<Longrightarrow> atmosphere p2 = atmosphere p1 \<Longrightarrow>
   hashPlanet h (Some p2) = hashPlanet h (Some p1)"
  by (simp add: hashPlanet_def)

text \<open>
  C10. The fingerprint reads only the name, mass, radius, temperature and atmosphere.
  When a call for one record returns a result, the next call for any record that agrees
  with it on these five fields returns that same result and leaves the classifier as
  it is, whatever its orbital period, distance, follow-up count and confidence are.
\<close>

theorem cache_key_blindness:
  assumes "fst (classifyPlanet h c (Some p1)) = Inr r1"
    and "name p2 = name p1" and "mass p2 = mass p1" and "radius p2 = radius p1"
    and "temperature p2 = temperature p1" and "atmosphere p2 = atmosphere p1"
  shows "classifyPlanet h (snd (classifyPlanet h c (Some p1))) (Some p2) =
           (Inr r1, snd (classifyPlanet h c (Some p1)))"
  using assms(1) hashPlanet_fields[OF assms(2-6)] by (rule classifyPlanet_again)

theorem cache_key_blindness_witness:
  "(\<exists>r. fst (classifyPlanet stub_host (new_classifier (Platt 2 1) None)
            (Some (empty_planet\<lparr>name := JStr ''Kepler-22 b'', orbital_period := JNum 290\<rparr>))) = Inr r) \<and>
   classifyPlanet stub_host
     (snd (classifyPlanet stub_host (new_classifier (Platt 2 1) None)
            (Some (empty_planet\<lparr>name := JStr ''Kepler-22 b'', orbital_period := JNum 290\<rparr>))))
     (Some (empty_planet\<lparr>name := JStr ''Kepler-22 b'', orbital_period := JNum 3,
                          distance := JNum 620, follow_up_observations := JNum 4,
                          ai_confidence := JNum 0.2\<rparr>)) =
   classifyPlanet stub_host (new_classifier (Platt 2 1) None)
     (Some (empty_planet\<lparr>name := JStr ''Kepler-22 b'', orbital_period := JNum 290\<rparr>))"
proof -
  let ?c = "new_classifier (Platt 2 1) None"
  let ?p1 = "empty_planet\<lparr>name := JStr ''Kepler-22 b'', orbital_period := JNum 290\<rparr>"
  let ?p2 = "empty_planet\<lparr>name := JStr ''Kepler-22 b'', orbital_period := JNum 3,
                          distance := JNum 620, follow_up_observations := JNum 4,
                          ai_confidence := JNum 0.2\<rparr>"
  have ok: "\<not> truthy (atmosphere ?p1) \<or> (\<exists>s. atmosphere ?p1 = JStr s)"
    by (simp add: empty_planet_def)
  obtain r where r: "fst (classifyPlanet stub_host ?c (Some ?p1)) = Inr r"
    using classifyPlanet_ok[OF ok] by blast
  have "classifyPlanet stub_host (snd (classifyPlanet stub_host ?c (Some ?p1))) (Some ?p2) =
          (Inr r, snd (classifyPlanet stub_host ?c (Some ?p1)))"
    by (rule cache_key_blindness[OF r]) simp_all
  also have "\<dots> = classifyPlanet stub_host ?c (Some ?p1)"
    using r by (metis prod.collapse)
  finally show ?thesis using r by blast
qed

lemma number_or_default:
  "to_number h v = None \<or> to_number h v = Some 0 \<Longrightarrow> number_or h v d = d"
  by (auto simp add: number_or_def)

lemma number_or_value:
  "to_number h v = Some x \<Longrightarrow> x \<noteq> 0 \<Longrightarrow> number_or h v d = x"
  by (simp add: number_or_def)

text \<open>
  C4, as amended. Take a record whose fields are values of the model (undefined, null,
  booleans, finite numbers, NaN, strings) and whose atmosphere is falsy (missing, null,
  false, zero, NaN, the empty string) or a string. Then \<open>classifyPlanet\<close> returns a
  result. When nothing is cached under the record's fingerprint, the result carries the
  feature vector of the record; on a hit the cached result is returned as it is. In the
  feature vector each numeric field whose conversion to a number is NaN or zero (a
  missing field, null, false, text that is no number, zero) has its default: mass 1,
  radius 1, temperature 288, orbital period 365, distance 100, follow-up 0, confidence
  0.75; every other numeric field has its own number. A falsy atmosphere gives the
  flag 0.
\<close>

theorem classifyPlanet_total_for_text_atmosphere:
  assumes "\<not> truthy (atmosphere p) \<or> (\<exists>s. atmosphere p = JStr s)"
  shows "(\<exists>r. fst (classifyPlanet h c (Some p)) = Inr r \<and>
              (cache c (hashPlanet h (Some p)) = None \<longrightarrow>
                 features (explanation r) = featureVector h p)) \<and>
         (\<forall>r. cache c (hashPlanet h (Some p)) = Some r \<longrightarrow>
              fst (classifyPlanet h c (Some p)) = Inr r) \<and>
         (to_number h (mass p) = None \<or> to_number h (mass p) = Some 0 \<longrightarrow>
            mass_f (featureVector h p) = 1) \<and>
         (to_number h (radius p) = None \<or> to_number h (radius p) = Some 0 \<longrightarrow>
            radius_f (featureVector h p) = 1) \<and>
         (to_number h (temperature p) = None \<or> to_number h (temperature p) = Some 0 \<longrightarrow>
            temperature_f (featureVector h p) = 288) \<and>
         (to_number h (orbital_period p) = None \<or> to_number h (orbital_period p) = Some 0 \<longrightarrow>
            orbital_period_f (featureVector h p) = 365) \<and>
         (to_number h (distance p) = None \<or> to_number h (distance p) = Some 0 \<longrightarrow>
            distance_f (featureVector h p) = 100) \<and>
         (to_number h (follow_up_observations p) = None \<or>
          to_number h (follow_up_observations p) = Some 0 \<longrightarrow>
            follow_up_f (featureVector h p) = 0) \<and>
         (to_number h (ai_confidence p) = None \<or> to_number h (ai_confidence p) = Some 0 \<longrightarrow>
            ai_confidence_f (featureVector h p) = 0.75) \<and>
         (\<forall>x. x \<noteq> 0 \<longrightarrow>
            (to_number h (mass p) = Some x \<longrightarrow> mass_f (featureVector h p) = x) \<and>
            (to_number h (radius p) = Some x \<longrightarrow> radius_f (featureVector h p) = x) \<and>
            (to_number h (temperature p) = Some x \<longrightarrow> temperature_f (featureVector h p) = x) \<and>
            (to_number h (orbital_period p) = Some x \<longrightarrow>
               orbital_period_f (featureVector h p) = x) \<and>
            (to_number h (distance p) = Some x \<longrightarrow> distance_f (featureVector h p) = x) \<and>
            (to_number h (follow_up_observations p) = Some x \<longrightarrow>
               follow_up_f (featureVector h p) = x) \<and>
            (to_number h (ai_confidence p) = Some x \<longrightarrow>
               ai_confidence_f (featureVector h p) = x)) \<and>
         (\<not> truthy (atmosphere p) \<longrightarrow> atmosphere_f (featureVector h p) = 0)"
proof -
  obtain b where b: "atmosphere_has_h2o (atmosphere p) = Inr b"
    using atmosphere_has_h2o_ok[OF assms] by blast
  obtain r where r: "classify_fresh h c p = Inr r" and f: "features (explanation r) = featureVector h p"
    using classify_fresh_returns[OF b, of c h] by auto
  have ret: "\<exists>r. fst (classifyPlanet h c (Some p)) = Inr r \<and>
              (cache c (hashPlanet h (Some p)) = None \<longrightarrow>
                 features (explanation r) = featureVector h p)"
    using r f by (simp add: classifyPlanet_unfold split: option.splits)
  have hit: "\<forall>r. cache c (hashPlanet h (Some p)) = Some r \<longrightarrow>
              fst (classifyPlanet h c (Some p)) = Inr r"
    by (simp add: classifyPlanet_hit)
  have d1: "to_number h (mass p) = None \<or> to_number h (mass p) = Some 0 \<longrightarrow>
            mass_f (featureVector h p) = 1"
    and d2: "to_number h (radius p) = None \<or> to_number h (radius p) = Some 0 \<longrightarrow>
            radius_f (featureVector h p) = 1"
    and d3: "to_number h (temperature p) = None \<or> to_number h (temperature p) = Some 0 \<longrightarrow>
            temperature_f (featureVector h p) = 288"
    and d4: "to_number h (orbital_period p) = None \<or> to_number h (orbital_period p) = Some 0 \<longrightarrow>
            orbital_period_f (featureVector h p) = 365"
    and d5: "to_number h (distance p) = None \<or> to_number h (distance p) = Some 0 \<longrightarrow>
            distance_f (featureVector h p) = 100"
    and d6: "to_number h (follow_up_observations p) = None \<or>
          to_number h (follow_up_observations p) = Some 0 \<longrightarrow>
            follow_up_f (featureVector h p) = 0"
    and d7: "to_number h (ai_confidence p) = None \<or> to_number h (ai_confidence p) = Some 0 \<longrightarrow>
            ai_confidence_f (featureVector h p) = 0.75"
    by (simp_all add: featureVector_def number_or_default)
  have own: "\<forall>x. x \<noteq> 0 \<longrightarrow>
            (to_number h (mass p) = Some x \<longrightarrow> mass_f (featureVector h p) = x) \<and>
            (to_number h (radius p) = Some x \<longrightarrow> radius_f (featureVector h p) = x) \<and>
            (to_number h (temperature p) = Some x \<longrightarrow> temperature_f (featureVector h p) = x) \<and>
            (to_number h (orbital_period p) = Some x \<longrightarrow>
               orbital_period_f (featureVector h p) = x) \<and>
            (to_number h (distance p) = Some x \<longrightarrow> distance_f (featureVector h p) = x) \<and>
            (to_number h (follow_up_observations p) = Some x \<longrightarrow>
               follow_up_f (featureVector h p) = x) \<and>
            (to_number h (ai_confidence p) = Some x \<longrightarrow>
               ai_confidence_f (featureVector h p) = x)"
    by (simp add: featureVector_def number_or_value)
  have atm: "\<not> truthy (atmosphere p) \<longrightarrow> atmosphere_f (featureVector h p) = 0"
    by (simp add: featureVector_def)
  from ret hit d1 d2 d3 d4 d5 d6 d7 own atm show ?thesis by (intro conjI)
qed

theorem classifyPlanet_total_for_text_atmosphere_witness:
  "\<exists>r. fst (classifyPlanet stub_host (new_classifier CalibrationMissing None)
              (Some (empty_planet\<lparr>mass := JStr ''heavy'', radius := JNull,
                                   temperature := JBool False, atmosphere := JNull\<rparr>))) = Inr r \<and>
       features (explanation r) =
         \<lparr>mass_f = 1, radius_f = 1, temperature_f = 288, orbital_period_f = 365,
          distance_f = 100, atmosphere_f = 0, follow_up_f = 0, ai_confidence_f = 0.75\<rparr>"
proof -
  let ?p = "empty_planet\<lparr>mass := JStr ''heavy'', radius := JNull,
                          temperature := JBool False, atmosphere := JNull\<rparr>"
  let ?c = "new_classifier CalibrationMissing None"
  have ok: "\<not> truthy (atmosphere ?p) \<or> (\<exists>s. atmosphere ?p = JStr s)"
    by simp
  have miss: "cache ?c (hashPlanet stub_host (Some ?p)) = None"
    by (simp add: new_classifier_def)
  have fv: "featureVector stub_host ?p =
         \<lparr>mass_f = 1, radius_f = 1, temperature_f = 288, orbital_period_f = 365,
          distance_f = 100, atmosphere_f = 0, follow_up_f = 0, ai_confidence_f = 0.75\<rparr>"
    by (simp add: featureVector_def number_or_def empty_planet_def stub_host_def)
  have "\<exists>r. fst (classifyPlanet stub_host ?c (Some ?p)) = Inr r \<and>
              (cache ?c (hashPlanet stub_host (Some ?p)) = None \<longrightarrow>
                 features (explanation r) = featureVector stub_host ?p)"
    using classifyPlanet_total_for_text_atmosphere[OF ok, of stub_host ?c] by (rule conjunct1)
  then show ?thesis
    using miss fv by auto
qed

text \<open>
  C4 as stated fails: on a record whose atmosphere is the boolean true, a truthy value
  that is not a string, the call of \<open>toLowerCase\<close> raises a TypeError.
\<close>

theorem classifyPlanet_raises_on_boolean_atmosphere:
  "fst (classifyPlanet stub_host (new_classifier CalibrationMissing None)
          (Some (empty_planet\<lparr>atmosphere := JBool True\<rparr>))) = Inl TypeError"
proof -
  have "classify_fresh stub_host (new_classifier CalibrationMissing None)
          (empty_planet\<lparr>atmosphere := JBool True\<rparr>) = Inl TypeError"
    by (simp add: classify_fresh_def atmosphere_has_h2o_def)
  then show ?thesis
    by (simp add: classifyPlanet_unfold new_classifier_def)
qed

section \<open>Rounding to a fixed number of decimals\<close>

lemma toFixed_nonneg:
  assumes "0 \<le> x" and "x < 10 ^ 21"
  shows "toFixed d x = real_of_int \<lfloor>x * 10 ^ d + 1 / 2\<rfloor> / 10 ^ d"
proof (cases "x = 0")
  case True
  then show ?thesis by (simp add: toFixed_def)
next
  case False
  with assms have "0 < x" by simp
  then show ?thesis using assms by (simp add: toFixed_def)
qed

lemma toFixed_mono:
  assumes "0 \<le> x" and "x \<le> y" and "y < 10 ^ 21"
  shows "toFixed d x \<le> toFixed d y"
proof -
  have "x * 10 ^ d + 1 / 2 \<le> y * 10 ^ d + 1 / 2"
    using assms by (simp add: mult_right_mono)
  then have "\<lfloor>x * 10 ^ d + 1 / 2\<rfloor> \<le> \<lfloor>y * 10 ^ d + 1 / 2\<rfloor>"
    by (rule floor_mono)
  then show ?thesis
    using assms by (simp add: toFixed_nonneg divide_right_mono)
qed





lemma foldl_plus: "foldl (\<lambda>s v. s + v) a xs = a + sum_list (xs :: real list)"
  by (induction xs arbitrary: a) simp_all

lemma sum_values_sum_list: "sum_values obj = sum_list (map snd obj)"
  by (simp add: sum_values_def foldl_plus)

section \<open>Priority score\<close>

lemma number_or_JNum_zero: "number_or h (JNum a) 0 = a"
  by (simp add: number_or_def)

text \<open>
  C6. For two records that differ only in a numeric habitability score, the record with
  the larger score has a priority score at least as large.
\<close>

theorem calculatePriorityScore_mono:
  assumes "habitability_score p = JNum a" and "a \<le> b"
  shows "calculatePriorityScore h p \<le> calculatePriorityScore h (p\<lparr>habitability_score := JNum b\<rparr>)"
proof -
  define K where "K = number_or h (ai_confidence p) 0.7 * 0.2 +
      min 1 (number_or h (follow_up_observations p) 0 / 20) * 0.1 +
      exp (- (min 1500 (number_or h (distance p) 100)) / 500) * 0.08 +
      (if confirmed_status p = JStr ''Candidate'' then 0.12 else 0)"
  define S where "S x = max 0 (min 0.999 (x * 0.5 + K))" for x :: real
  have p1: "calculatePriorityScore h p = toFixed 3 (S a)"
    using assms(1) by (simp add: calculatePriorityScore_def S_def K_def number_or_JNum_zero algebra_simps)
  have p2: "calculatePriorityScore h (p\<lparr>habitability_score := JNum b\<rparr>) = toFixed 3 (S b)"
    by (simp add: calculatePriorityScore_def S_def K_def number_or_JNum_zero algebra_simps)
  have "0 \<le> S a" by (simp add: S_def)
  moreover have "S a \<le> S b" using assms(2) by (simp add: S_def)
  moreover have "S b < 10 ^ 21" by (simp add: S_def)
  ultimately show ?thesis
    unfolding p1 p2 by (rule toFixed_mono)
qed

theorem calculatePriorityScore_mono_witness:
  "calculatePriorityScore stub_host
     (empty_planet\<lparr>habitability_score := JNum 0.2, confirmed_status := JStr ''Candidate''\<rparr>) \<le>
   calculatePriorityScore stub_host
     (empty_planet\<lparr>habitability_score := JNum 0.8, confirmed_status := JStr ''Candidate''\<rparr>)"
proof -
  let ?p = "empty_planet\<lparr>habitability_score := JNum 0.2, confirmed_status := JStr ''Candidate''\<rparr>"
  have "habitability_score ?p = JNum 0.2" by simp
  moreover have "(0.2::real) \<le> 0.8" by simp
  ultimately have "calculatePriorityScore stub_host ?p \<le>
      calculatePriorityScore stub_host (?p\<lparr>habitability_score := JNum 0.8\<rparr>)"
    by (rule calculatePriorityScore_mono)
  then show ?thesis by (simp add: empty_planet_def)
qed

section \<open>Probabilities of a classification\<close>

lemma keys_base_scores: "map fst (base_scores f b) = default_labels"
  by (simp add: base_scores_def default_labels_def)

lemma keys_probsRaw: "map fst (probsRaw base) = map fst base"
  by (simp add: probsRaw_def Let_def case_prod_unfold)

lemma keys_smoothed_probs: "map fst (smoothed_probs c f raw) = map fst raw"
  by (simp add: smoothed_probs_def Let_def case_prod_unfold)

lemma calibrate_pos: "calibration c = Some ab \<Longrightarrow> 0 < calibrate c x"
  by (simp add: calibrate_def Let_def case_prod_unfold add_pos_pos)















section \<open>The predicted type\<close>

lemma toFixed_strict:
  assumes "0 \<le> x" and "x + 1 / 10 ^ d \<le> y" and "y < 10 ^ 21"
  shows "toFixed d x < toFixed d y"
proof -
  have p: "(0::real) < 10 ^ d" by simp
  have "(x + 1 / 10 ^ d) * 10 ^ d \<le> y * 10 ^ d"
    using assms(2) p by (simp only: mult_le_cancel_right_pos)
  moreover have "(x + 1 / 10 ^ d) * 10 ^ d = x * 10 ^ d + 1"
    by (simp add: distrib_right)
  ultimately have "x * 10 ^ d + 1 / 2 + 1 \<le> y * 10 ^ d + 1 / 2" by simp
  then have "\<lfloor>x * 10 ^ d + 1 / 2 + 1\<rfloor> \<le> \<lfloor>y * 10 ^ d + 1 / 2\<rfloor>"
    by (rule floor_mono)
  moreover have "\<lfloor>x * 10 ^ d + 1 / 2 + 1\<rfloor> = \<lfloor>x * 10 ^ d + 1 / 2\<rfloor> + 1"
    using floor_add_int[of "x * 10 ^ d + 1 / 2" 1] by simp
  ultimately have "\<lfloor>x * 10 ^ d + 1 / 2\<rfloor> < \<lfloor>y * 10 ^ d + 1 / 2\<rfloor>"
    by linarith
  then have "real_of_int \<lfloor>x * 10 ^ d + 1 / 2\<rfloor> / 10 ^ d < real_of_int \<lfloor>y * 10 ^ d + 1 / 2\<rfloor> / 10 ^ d"
    using p by (simp add: divide_strict_right_mono)
  moreover have "0 < 1 / (10::real) ^ d" by simp
  then have "x \<le> y" using assms(2) by linarith
  then have "x < 10 ^ 21" "0 \<le> y"
    using assms(1,3) by linarith+
  ultimately show ?thesis
    using assms by (simp add: toFixed_nonneg)
qed

lemma sort_key_head:
  assumes "\<forall>y \<in> set xs. f x \<le> f y"
  shows "sort_key f (x # xs) = x # sort_key f xs"
proof -
  have "insort_key f x ys = x # ys" if "\<forall>y \<in> set ys. f x \<le> f y" for ys
    using that by (cases ys) simp_all
  moreover have "\<forall>y \<in> set (sort_key f xs). f x \<le> f y"
    using assms by simp
  ultimately show ?thesis by simp
qed

lemma sum_list_bound:
  fixes f :: "'a \<Rightarrow> real"
  assumes "\<forall>x \<in> set xs. f x \<le> b"
  shows "sum_list (map f xs) \<le> real (length xs) * b"
  using assms by (induction xs) (simp_all add: algebra_simps add_mono)

lemma smoothed_probs_map:
  "smoothed_probs c f raw =
     map (\<lambda>e. (fst e,
                toFixed 4 (calibrate c (snd e * (0.6 + 0.4 * ai_confidence_f f)) /
                  or_one (sum_list (map (\<lambda>e. calibrate c (snd e * (0.6 + 0.4 * ai_confidence_f f))) raw)))))
       raw"
  by (simp add: smoothed_probs_def Let_def case_prod_unfold sum_values_sum_list comp_def)

lemma calibrate_less_one: "calibration c = Some ab \<Longrightarrow> calibrate c x < 1"
  by (simp add: calibrate_def Let_def case_prod_unfold add_pos_pos)

lemma calibrate_default_high:
  assumes "calibration c = Some (1, 0)" and "1 / 2 \<le> x"
  shows "1 / 2 \<le> calibrate c x"
proof -
  define z where "z = max 0.000001 (min (1 - 0.000001) x) - 0.5"
  have "0 \<le> z" using assms(2) by (simp add: z_def)
  then have "exp (- z) \<le> 1" by simp
  then have "1 + exp (- z) \<le> 2" by simp
  moreover have "0 < 1 + exp (- z)" by (simp add: add_pos_pos)
  ultimately have "1 / 2 \<le> 1 / (1 + exp (- z))"
    by (simp add: field_simps)
  moreover have "calibrate c x = 1 / (1 + exp (- z))"
    using assms(1) by (simp add: calibrate_def z_def)
  ultimately show ?thesis by simp
qed

lemma calibrate_default_low:
  assumes "calibration c = Some (1, 0)" and "x \<le> 1 / 4"
  shows "calibrate c x \<le> 4 / 9"
proof -
  define z where "z = max 0.000001 (min (1 - 0.000001) x) - 0.5"
  have "1 / 4 \<le> - z" using assms(2) by (simp add: z_def)
  moreover have "1 + (- z) \<le> exp (- z)" by (rule exp_ge_add_one_self)
  ultimately have "9 / 4 \<le> 1 + exp (- z)" by simp
  then have "1 / (1 + exp (- z)) \<le> 1 / (9 / 4)"
    by (rule divide_left_mono) (simp_all add: add_pos_pos)
  moreover have "calibrate c x = 1 / (1 + exp (- z))"
    using assms(1) by (simp add: calibrate_def z_def)
  ultimately show ?thesis by simp
qed

lemma smoothed_probs_head_dominates:
  assumes cal: "calibration c = Some (1, 0)"
    and hi: "1 / 2 \<le> r0 * (0.6 + 0.4 * ai_confidence_f f)"
    and lo: "\<forall>e \<in> set rest. snd e * (0.6 + 0.4 * ai_confidence_f f) \<le> 1 / 4"
    and len: "length rest \<le> 8"
  shows "\<exists>p0 ps. smoothed_probs c f ((k0, r0) # rest) = (k0, p0) # ps \<and>
                 map fst ps = map fst rest \<and> (\<forall>e \<in> set ps. snd e < p0)"
proof -
  define F where "F = 0.6 + 0.4 * ai_confidence_f f"
  define v where "v e = calibrate c (snd e * F)" for e :: "string \<times> real"
  define s where "s = sum_list (map v ((k0, r0) # rest))"
  have vpos: "0 < v e" and vlt: "v e < 1" for e
    using cal by (simp_all add: v_def calibrate_pos calibrate_less_one)
  have "sum_list (map v rest) \<le> real (length rest) * 1"
    by (rule sum_list_bound) (simp add: vlt less_imp_le)
  then have "sum_list (map v rest) \<le> 8" using len by simp
  moreover have "0 \<le> sum_list (map v rest)"
    by (rule sum_list_nonneg) (auto simp add: vpos less_imp_le)
  ultimately have s: "0 < s" "s \<le> 9"
    using vpos[of "(k0, r0)"] vlt[of "(k0, r0)"] by (simp_all add: s_def)
  have o: "or_one (v (k0, r0) + sum_list (map v rest)) = v (k0, r0) + sum_list (map v rest)"
    using s by (simp add: or_one_def s_def)
  have v0: "1 / 2 \<le> v (k0, r0)"
    unfolding v_def F_def snd_conv using cal hi by (rule calibrate_default_high)
  define p0 where "p0 = toFixed 4 (v (k0, r0) / s)"
  define ps where "ps = map (\<lambda>e. (fst e, toFixed 4 (v e / s))) rest"
  have eq: "smoothed_probs c f ((k0, r0) # rest) = (k0, p0) # ps"
    unfolding smoothed_probs_map F_def[symmetric] v_def[symmetric]
    by (simp add: p0_def ps_def s_def o)
  have keys: "map fst ps = map fst rest" by (simp add: ps_def comp_def)
  have "snd e < p0" if "e \<in> set ps" for e
  proof -
    from that have "e \<in> (\<lambda>e. (fst e, toFixed 4 (v e / s))) ` set rest"
      by (simp add: ps_def)
    then obtain e' where e': "e' \<in> set rest" and e: "e = (fst e', toFixed 4 (v e' / s))"
      by blast
    have "v e' \<le> 4 / 9"
      unfolding v_def F_def using cal lo[rule_format, OF e'] by (rule calibrate_default_low)
    then have gap: "v e' + s / 10 ^ 4 \<le> v (k0, r0)"
      using v0 s by simp
    have "(v e' + s / 10 ^ 4) / s \<le> v (k0, r0) / s"
      using gap s(1) by (simp only: divide_le_cancel) simp
    moreover have "(v e' + s / 10 ^ 4) / s = v e' / s + 1 / 10 ^ 4"
      using s(1) by (simp add: add_divide_distrib)
    ultimately have a: "v e' / s + 1 / 10 ^ 4 \<le> v (k0, r0) / s" by simp
    have b: "0 \<le> v e' / s" using vpos[of e'] s(1) by (simp add: less_imp_le)
    have "v (k0, r0) / s \<le> 1 / s" using vlt[of "(k0, r0)"] s(1) by (simp add: divide_le_cancel less_imp_le)
    have c: "v (k0, r0) / s < 10 ^ 21"
    proof -
      have "v (k0, r0) \<le> s"
        unfolding s_def using \<open>0 \<le> sum_list (map v rest)\<close> by simp
      then have "v (k0, r0) / s \<le> 1" using s(1) by simp
      then show ?thesis by simp
    qed
    have "toFixed 4 (v e' / s) < toFixed 4 (v (k0, r0) / s)"
      using b a c by (rule toFixed_strict)
    then show ?thesis by (simp add: e p0_def)
  qed
  with eq keys show ?thesis by blast
qed

lemma scenario_features:
  "featureVector h scenario_planet =
     \<lparr>mass_f = 1, radius_f = 1, temperature_f = 288, orbital_period_f = 365,
      distance_f = 50, atmosphere_f = 1, follow_up_f = 0, ai_confidence_f = 0.9\<rparr>"
  by (simp add: featureVector_def scenario_planet_def empty_planet_def number_or_def)

lemma scenario_no_h2o: "atmosphere_has_h2o (atmosphere scenario_planet) = Inr False"
  by (simp add: atmosphere_has_h2o_def scenario_planet_def toLowerCase_def to_lower_char_def)

lemma scenario_raw:
  "probsRaw (base_scores (featureVector h scenario_planet) False) =
     (''Terrestrial'', 60 / 109) #
     [(''Super Earth'', 25 / 109), (''Mini-Neptune'', 12 / 109), (''Gas Giant'', 5 / 109),
      (''Hot Jupiter'', 1 / 109), (''Ice Giant'', 1 / 109), (''Puffy Planet'', 1 / 109),
      (''Ocean World'', 2 / 109), (''Desert World'', 2 / 109)]"
  unfolding scenario_features
  by (simp add: base_scores_def probsRaw_def sum_values_def or_one_def)

text \<open>
  C7. For the planet of the scenario, a classifier with the default calibration (1, 0)
  that holds no cached result under the planet's fingerprint returns a result whose
  predicted type is Terrestrial, and the probability of Terrestrial is strictly larger
  than the probability of each of the other eight labels.
\<close>

theorem scenario_is_terrestrial:
  assumes "calibration c = Some (1, 0)"
    and "cache c (hashPlanet h (Some scenario_planet)) = None"
  shows "\<exists>r pT. fst (classifyPlanet h c (Some scenario_planet)) = Inr r \<and>
                predictedType r = ''Terrestrial'' \<and>
                map fst (probabilities r) = default_labels \<and>
                (''Terrestrial'', pT) \<in> set (probabilities r) \<and>
                (\<forall>e \<in> set (probabilities r). fst e \<noteq> ''Terrestrial'' \<longrightarrow> snd e < pT)"
proof -
  let ?f = "featureVector h scenario_planet"
  let ?rest = "[(''Super Earth'', 25 / 109), (''Mini-Neptune'', 12 / 109), (''Gas Giant'', 5 / 109),
      (''Hot Jupiter'', 1 / 109), (''Ice Giant'', 1 / 109), (''Puffy Planet'', 1 / 109),
      (''Ocean World'', 2 / 109), (''Desert World'', 2 / 109 :: real)]"
  let ?sm = "smoothed_probs c ?f (probsRaw (base_scores ?f False))"
  have ai: "ai_confidence_f ?f = 0.9" unfolding scenario_features by simp
  have hi: "1 / 2 \<le> (60 / 109) * (0.6 + 0.4 * ai_confidence_f ?f)"
    unfolding ai by simp
  have lo: "\<forall>e \<in> set ?rest. snd e * (0.6 + 0.4 * ai_confidence_f ?f) \<le> 1 / 4"
    unfolding ai by simp
  have len: "length ?rest \<le> 8" by simp
  obtain p0 ps where sm: "?sm = (''Terrestrial'', p0) # ps"
    and below: "\<forall>e \<in> set ps. snd e < p0"
    unfolding scenario_raw
    using smoothed_probs_head_dominates[OF assms(1) hi lo len, of "''Terrestrial''"] by blast
  have "\<forall>y \<in> set ps. - snd (''Terrestrial'', p0) \<le> - snd y"
    using below by (simp add: less_imp_le)
  then have "sort_key (\<lambda>e. - snd e) ((''Terrestrial'', p0) # ps) =
             (''Terrestrial'', p0) # sort_key (\<lambda>e. - snd e) ps"
    by (rule sort_key_head)
  then have se: "sorted_entries ?sm = (''Terrestrial'', p0) # sort_key (\<lambda>e. - snd e) ps"
    unfolding sm sorted_entries_def .
  obtain e rest r where e: "sorted_entries ?sm = e # rest"
    and r: "classify_fresh h c scenario_planet = Inr r"
    and pt: "predictedType r = fst e"
    and pr: "probabilities r = ?sm"
    using classify_fresh_returns[OF scenario_no_h2o, of c h] by auto
  have "e = (''Terrestrial'', p0)" using e se by simp
  then have t: "predictedType r = ''Terrestrial''" using pt by simp
  have k: "map fst (probabilities r) = default_labels"
    unfolding pr keys_smoothed_probs keys_probsRaw keys_base_scores by (rule refl)
  have m: "(''Terrestrial'', p0) \<in> set (probabilities r)"
    unfolding pr sm by simp
  have d: "\<forall>e \<in> set (probabilities r). fst e \<noteq> ''Terrestrial'' \<longrightarrow> snd e < p0"
    unfolding pr sm using below by auto
  have "fst (classifyPlanet h c (Some scenario_planet)) = Inr r"
    using assms(2) r by (simp add: classifyPlanet_unfold)
  with t k m d show ?thesis by blast
qed

theorem scenario_is_terrestrial_witness:
  "\<exists>r. fst (classifyPlanet stub_host (new_classifier CalibrationMissing None) (Some scenario_planet)) = Inr r \<and>
       predictedType r = ''Terrestrial''"
proof -
  have a: "calibration (new_classifier CalibrationMissing None) = Some (1, 0)"
    by (simp add: new_classifier_def)
  have b: "cache (new_classifier CalibrationMissing None) (hashPlanet stub_host (Some scenario_planet)) = None"
    by (simp add: new_classifier_def)
  show ?thesis
    using scenario_is_terrestrial[OF a b] by blast
qed

section \<open>The biosignature verdict\<close>

lemma molecule_keys_distinct:
  "distinct (map (\<lambda>e. toUpperCase (fst e)) moleculeWindows)"
  by (simp add: moleculeWindows_def toUpperCase_def to_upper_char_def char_of_def)

lemma matchTemplates_keys: "map fst (matchTemplates ai nd) = map fst (templateWindows ai)"
  by (simp add: matchTemplates_def case_prod_unfold comp_def)

lemma map_filter_keys:
  assumes "\<And>x y. g x = Some y \<Longrightarrow> k' y = k x"
  shows "map k' (List.map_filter g xs) = map k (filter (\<lambda>x. g x \<noteq> None) xs)"
  using assms by (induction xs) (auto simp add: List.map_filter_def)

lemma fromEntries_distinct:
  assumes "distinct (map fst es)" and "(k, v) \<in> set es"
  shows "fromEntries es k = Some v"
proof -
  have "distinct (map fst (rev es))" using assms(1) by (simp add: rev_map[symmetric])
  moreover have "(k, v) \<in> set (rev es)" using assms(2) by simp
  ultimately show ?thesis unfolding fromEntries_def by (rule map_of_is_SomeI)
qed

lemma has_molecule_present:
  assumes "distinct (map (\<lambda>d. toUpperCase (molecule d)) dm)"
    and "d \<in> set dm" and "molecule d = m" and "molecule_confidence d > 0.25"
  shows "has_molecule dm m"
proof -
  let ?es = "map (\<lambda>d. (toUpperCase (molecule d), molecule_confidence d)) dm"
  have "distinct (map fst ?es)" using assms(1) by (simp add: comp_def)
  moreover have "(toUpperCase m, molecule_confidence d) \<in> set ?es"
    using assms(2,3) by auto
  ultimately have "fromEntries ?es (toUpperCase m) = Some (molecule_confidence d)"
    by (rule fromEntries_distinct)
  then show ?thesis
    using assms(4) by (simp add: has_molecule_def)
qed

lemma detected_of_Nil: "detected_of [] = []"
  by (simp add: detected_of_def map_filter_simps)

lemma detected_of_Cons:
  "detected_of ((mol, info) # ms) =
     (if match_detected info \<and> match_confidence info > 0.2
      then \<lparr>molecule = mol, molecule_confidence = match_confidence info,
            windows = match_windows info\<rparr> # detected_of ms
      else detected_of ms)"
  by (simp add: detected_of_def map_filter_simps)

lemma detected_of_keys:
  "map molecule (detected_of matches) =
   map fst (filter (\<lambda>e. match_detected (snd e) \<and> match_confidence (snd e) > 0.2) matches)"
proof (induction matches)
  case Nil
  show ?case by (simp add: detected_of_Nil)
next
  case (Cons e ms)
  obtain mol info where e: "e = (mol, info)" by (cases e)
  show ?case unfolding e using Cons.IH by (simp add: detected_of_Cons)
qed

lemma detected_of_distinct:
  assumes "templateWindows ai = moleculeWindows"
  shows "distinct (map (\<lambda>d. toUpperCase (molecule d)) (detected_of (matchTemplates ai nd)))"
proof -
  let ?P = "\<lambda>e. match_detected (snd e) \<and> match_confidence (snd e) > 0.2"
  let ?ms = "matchTemplates ai nd"
  have "map (toUpperCase \<circ> fst) ?ms = map toUpperCase (map fst ?ms)"
    by simp
  also have "\<dots> = map toUpperCase (map fst moleculeWindows)"
    unfolding matchTemplates_keys assms by (rule refl)
  also have "\<dots> = map (\<lambda>e. toUpperCase (fst e)) moleculeWindows"
    by (simp add: comp_def)
  finally have "distinct (map (toUpperCase \<circ> fst) ?ms)"
    using molecule_keys_distinct by simp
  then have a: "distinct (map (toUpperCase \<circ> fst) (filter ?P ?ms))"
    by (rule distinct_map_filter)
  have "map (\<lambda>d. toUpperCase (molecule d)) (detected_of ?ms) =
        map toUpperCase (map molecule (detected_of ?ms))"
    by (simp add: comp_def)
  also have "\<dots> = map toUpperCase (map fst (filter ?P ?ms))"
    unfolding detected_of_keys by (rule refl)
  also have "\<dots> = map (toUpperCase \<circ> fst) (filter ?P ?ms)"
    by simp
  finally show ?thesis using a by (simp only:)
qed

lemma analyzeSpectrum_stages:
  assumes "xs \<noteq> []"
  shows "detectedMolecules (analyzeSpectrum h ai (Samples xs) po) =
           detected_of (matchTemplates ai
             (normalize (savitzkyGolay xs (smoothingWindow ai) (polyOrder ai)))) \<and>
         (\<exists>avg. biosignaturePotential (analyzeSpectrum h ai (Samples xs) po) =
            biosignature_of ai
              (detected_of (matchTemplates ai
                 (normalize (savitzkyGolay xs (smoothingWindow ai) (polyOrder ai))))) avg)"
proof (cases xs)
  case Nil
  with assms show ?thesis by simp
next
  case (Cons s0 ss)
  show ?thesis
    unfolding Cons analyzeSpectrum_def
    by (simp only: Let_def spectral_input.case list.case spectrum_result.select_convs) blast
qed

lemma biosignature_high:
  "has_molecule dm ''O2'' \<Longrightarrow> has_molecule dm ''CH4'' \<Longrightarrow>
   level (biosignature_of ai dm avg) = ''High''"
  by (simp add: biosignature_of_def)

text \<open>
  C2. For an analyzer with the molecule windows of the constructor and a non-empty
  array of samples: when the detected molecules of the result include O2 with a
  confidence above 0.25 and CH4 with a confidence above 0.25, the biosignature level of
  the result is High. Nothing else is assumed, so the conditions of the later rules do
  not matter.
\<close>

theorem biosignature_precedence:
  assumes "templateWindows ai = moleculeWindows" and "xs \<noteq> []"
    and "d1 \<in> set (detectedMolecules (analyzeSpectrum h ai (Samples xs) po))"
    and "molecule d1 = ''O2''" and "molecule_confidence d1 > 0.25"
    and "d2 \<in> set (detectedMolecules (analyzeSpectrum h ai (Samples xs) po))"
    and "molecule d2 = ''CH4''" and "molecule_confidence d2 > 0.25"
  shows "level (biosignaturePotential (analyzeSpectrum h ai (Samples xs) po)) = ''High''"
proof -
  let ?dm = "detected_of (matchTemplates ai
               (normalize (savitzkyGolay xs (smoothingWindow ai) (polyOrder ai))))"
  have dm: "detectedMolecules (analyzeSpectrum h ai (Samples xs) po) = ?dm"
    using analyzeSpectrum_stages[OF assms(2)] by (rule conjunct1)
  obtain avg where bio: "biosignaturePotential (analyzeSpectrum h ai (Samples xs) po) =
      biosignature_of ai ?dm avg"
    using analyzeSpectrum_stages[OF assms(2), of h ai po] by blast
  have d: "distinct (map (\<lambda>d. toUpperCase (molecule d)) ?dm)"
    using assms(1) by (rule detected_of_distinct)
  have "has_molecule ?dm ''O2''"
    using d assms(3,4,5) unfolding dm by (rule has_molecule_present)
  moreover have "has_molecule ?dm ''CH4''"
    using d assms(6,7,8) unfolding dm by (rule has_molecule_present)
  ultimately show ?thesis
    unfolding bio by (rule biosignature_high)
qed

section \<open>The sample spectrum, stage by stage\<close>

lemma toFixed_multiple:
  assumes "0 \<le> x" and "x < 10 ^ 21" and "x * 10 ^ d = real_of_int n"
  shows "toFixed d x = x"
proof -
  have "\<lfloor>real_of_int n + 1 / 2\<rfloor> = n" by linarith
  then have "toFixed d x = real_of_int n / 10 ^ d"
    using assms by (simp add: toFixed_nonneg)
  also have "\<dots> = x * 10 ^ d / 10 ^ d" using assms(3) by simp
  also have "\<dots> = x" by simp
  finally show ?thesis .
qed

lemma tanh_lower:
  assumes "1 / 2 \<le> (x::real)"
  shows "1 / 3 \<le> tanh x"
proof -
  define t where "t = exp (- 2 * (1 / 2 :: real))"
  have "1 + (1::real) \<le> exp 1" by (rule exp_ge_add_one_self)
  then have "1 / exp (1::real) \<le> 1 / 2"
    by (simp add: field_simps)
  then have t: "t \<le> 1 / 2" by (simp add: t_def exp_minus inverse_eq_divide)
  have tp: "0 < t" by (simp add: t_def)
  have "tanh (1 / 2 :: real) = (1 - t) / (1 + t)"
    unfolding t_def by (rule tanh_real_altdef)
  moreover have "1 / 3 \<le> (1 - t) / (1 + t)"
    using t tp by (simp add: field_simps)
  ultimately have "1 / 3 \<le> tanh (1 / 2 :: real)" by simp
  also have "\<dots> \<le> tanh x" using assms by simp
  finally show ?thesis .
qed

lemma toFixed3_tanh:
  assumes "1 / 2 \<le> (x::real)"
  shows "333 / 1000 \<le> toFixed 3 (tanh x)"
proof -
  have "toFixed 3 (333 / 1000) \<le> toFixed 3 (tanh x)"
  proof (rule toFixed_mono)
    show "(0::real) \<le> 333 / 1000" by simp
    have "(333 / 1000 :: real) \<le> 1 / 3" by simp
    also have "\<dots> \<le> tanh x" using assms by (rule tanh_lower)
    finally show "333 / 1000 \<le> tanh x" .
    have "tanh x < 1" by (rule tanh_real_lt_1)
    then show "tanh x < 10 ^ 21" by simp
  qed
  moreover have "toFixed 3 (333 / 1000) = 333 / 1000"
    by (rule toFixed_multiple[where n = 333]) simp_all
  ultimately show ?thesis by simp
qed

lemma toFixed6_half: "toFixed 6 (1 / 2) = 1 / 2"
  by (rule toFixed_multiple[where n = 500000]) simp_all

lemma toFixed4_half: "toFixed 4 (1 / 2) = 1 / 2"
  by (rule toFixed_multiple[where n = 5000]) simp_all

lemma toFixed3_half: "toFixed 3 (1 / 2) = 1 / 2"
  by (rule toFixed_multiple[where n = 500]) simp_all

lemma toFixed6_one: "toFixed 6 1 = 1"
  by (rule toFixed_multiple[where n = 1000000]) simp_all

lemma toFixed3_one: "toFixed 3 1 = 1"
  by (rule toFixed_multiple[where n = 1000]) simp_all

lemma toFixed2_fifty: "toFixed 2 50 = 50"
  by (rule toFixed_multiple[where n = 5000]) simp_all

lemma toFixed4_five_halves: "toFixed 4 (5 / 2) = 5 / 2"
  by (rule toFixed_multiple[where n = 25000]) simp_all

lemma sample_smoothed:
  "savitzkyGolay sample_spectrum 7 3 =
     [\<lparr>wavelength = 540, intensity = 1 / 2, snr = 50, intensity_smoothed = 1 / 2\<rparr>,
      \<lparr>wavelength = 545, intensity = 1 / 2, snr = 50, intensity_smoothed = 1 / 2\<rparr>,
      \<lparr>wavelength = 690, intensity = 1 / 2, snr = 50, intensity_smoothed = 1 / 2\<rparr>,
      \<lparr>wavelength = 692, intensity = 1, snr = 50, intensity_smoothed = 1\<rparr>]"
  by (simp add: savitzkyGolay_def with_smoothed_def sample_spectrum_def)

lemma envelope_of_few:
  assumes "data \<noteq> []" and "length data \<le> 6"
  shows "continuumEnvelope data None =
           replicate (length data)
             (max 0.000001 (sort (map intensity_smoothed data) ! percentile_index (length data)))"
proof -
  have w: "default_envelope_window (length data) = 11"
    using assms(2) by (simp add: default_envelope_window_def)
  have h: "(11::nat) div 2 = 5" by simp
  have sl: "slice_incl (i - 5) (min (length data - 1) (i + 5)) data = data"
    if "i \<in> set [0 ..< length data]" for i
  proof -
    have "i - 5 = 0" using that assms(2) by simp
    moreover have "min (length data - 1) (i + 5) = length data - 1"
      using assms(2) by simp
    moreover have "length data - 1 + 1 = length data"
      using assms(1) by (simp add: Suc_leI)
    ultimately show ?thesis unfolding slice_incl_def by simp
  qed
  have "map (\<lambda>i. max 0.000001
              (sort (map intensity_smoothed
                 (slice_incl (i - 5) (min (length data - 1) (i + 5)) data)) !
               percentile_index (length (sort (map intensity_smoothed
                 (slice_incl (i - 5) (min (length data - 1) (i + 5)) data))))))
          [0 ..< length data] =
        map (\<lambda>i. max 0.000001
              (sort (map intensity_smoothed data) ! percentile_index (length data)))
          [0 ..< length data]"
    by (rule map_cong[OF refl]) (simp only: sl length_sort length_map)
  also have "\<dots> = replicate (length data)
             (max 0.000001 (sort (map intensity_smoothed data) ! percentile_index (length data)))"
    by (simp add: map_replicate_const)
  finally show ?thesis
    using assms(1) unfolding continuumEnvelope_def Let_def option.case w h by simp
qed

lemma sample_envelope:
  "continuumEnvelope (savitzkyGolay sample_spectrum 7 3) None = [1, 1, 1, 1]"
proof -
  let ?data = "savitzkyGolay sample_spectrum 7 3"
  have len: "length ?data = 4" unfolding sample_smoothed by simp
  have ne: "?data \<noteq> []" unfolding sample_smoothed by simp
  have le: "length ?data \<le> 6" unfolding len by simp
  have vals: "map intensity_smoothed ?data = [1 / 2, 1 / 2, 1 / 2, 1]"
    unfolding sample_smoothed by simp
  have srt: "sort [1 / 2, 1 / 2, 1 / 2, 1 :: real] = [1 / 2, 1 / 2, 1 / 2, 1]"
    by simp
  have idx: "percentile_index 4 = 3" by (simp add: percentile_index_def)
  have nth: "[1 / 2, 1 / 2, 1 / 2, 1 :: real] ! 3 = 1" by simp
  have mx: "max 0.000001 (1::real) = 1" by simp
  have rp: "replicate 4 (1::real) = [1, 1, 1, 1]" by (simp add: numeral_eq_Suc)
  show ?thesis
    unfolding envelope_of_few[OF ne le] len vals srt idx nth mx rp by (rule refl)
qed

lemma sample_normalized:
  "normalize (savitzkyGolay sample_spectrum 7 3) =
     [\<lparr>wavelength = 540, intensity = 1 / 2, snr = 50, intensity_smoothed = 1 / 2,
       continuum = 1, intensity_norm = 1 / 2\<rparr>,
      \<lparr>wavelength = 545, intensity = 1 / 2, snr = 50, intensity_smoothed = 1 / 2,
       continuum = 1, intensity_norm = 1 / 2\<rparr>,
      \<lparr>wavelength = 690, intensity = 1 / 2, snr = 50, intensity_smoothed = 1 / 2,
       continuum = 1, intensity_norm = 1 / 2\<rparr>,
      \<lparr>wavelength = 692, intensity = 1, snr = 50, intensity_smoothed = 1,
       continuum = 1, intensity_norm = 1\<rparr>]"
proof -
  have ne: "savitzkyGolay sample_spectrum 7 3 \<noteq> []" unfolding sample_smoothed by simp
  show ?thesis
    unfolding normalize_def sample_envelope if_not_P[OF ne] Let_def
    unfolding sample_smoothed
    by (simp add: toFixed6_half toFixed6_one)
qed

lemma sample_width_methane:
  "equivalentWidth
     [\<lparr>wavelength = 540, intensity = 1 / 2, snr = 50, intensity_smoothed = 1 / 2,
       continuum = 1, intensity_norm = 1 / 2\<rparr>,
      \<lparr>wavelength = 545, intensity = 1 / 2, snr = 50, intensity_smoothed = 1 / 2,
       continuum = 1, intensity_norm = 1 / 2\<rparr>] = 5 / 2"
  by (simp add: equivalentWidth_def norm_or_raw_def toFixed4_five_halves)

lemma sample_width_oxygen:
  "equivalentWidth
     [\<lparr>wavelength = 690, intensity = 1 / 2, snr = 50, intensity_smoothed = 1 / 2,
       continuum = 1, intensity_norm = 1 / 2\<rparr>,
      \<lparr>wavelength = 692, intensity = 1, snr = 50, intensity_smoothed = 1,
       continuum = 1, intensity_norm = 1\<rparr>] = 1 / 2"
  by (simp add: equivalentWidth_def norm_or_raw_def toFixed4_half)

lemma sample_detect_methane:
  assumes "minSnrForDetection ai = 8"
  shows "detectInRange ai (normalize (savitzkyGolay sample_spectrum 7 3)) 530 555 =
           Some \<lparr>ew = 5 / 2, meanSnr = 50, absorptionFraction = 1, detected = True, points = 2\<rparr>"
  unfolding sample_normalized detectInRange_def
  by (simp add: assms sample_width_methane norm_or_raw_def toFixed4_five_halves
        toFixed2_fifty toFixed3_one Let_def)

lemma sample_detect_oxygen:
  assumes "minSnrForDetection ai = 8"
  shows "detectInRange ai (normalize (savitzkyGolay sample_spectrum 7 3)) 687 695 =
           Some \<lparr>ew = 1 / 2, meanSnr = 50, absorptionFraction = 1 / 2, detected = True, points = 2\<rparr>"
  unfolding sample_normalized detectInRange_def
  by (simp add: assms sample_width_oxygen norm_or_raw_def toFixed4_half
        toFixed2_fifty toFixed3_half Let_def)

lemma sample_detect_elsewhere:
  "detectInRange ai (normalize (savitzkyGolay sample_spectrum 7 3)) 780 805 = None"
  "detectInRange ai (normalize (savitzkyGolay sample_spectrum 7 3)) 1200 1300 = None"
  "detectInRange ai (normalize (savitzkyGolay sample_spectrum 7 3)) 760 770 = None"
  unfolding sample_normalized detectInRange_def by simp_all

lemma sample_match_methane:
  assumes "minSnrForDetection ai = 8"
  shows "match_detected (matchMolecule ai (normalize (savitzkyGolay sample_spectrum 7 3))
           [(530, 555), (780, 805), (1200, 1300)]) \<and>
         333 / 1000 \<le> match_confidence (matchMolecule ai
           (normalize (savitzkyGolay sample_spectrum 7 3))
           [(530, 555), (780, 805), (1200, 1300)])"
proof -
  have per: "List.map_filter
      (\<lambda>r. detectInRange ai (normalize (savitzkyGolay sample_spectrum 7 3)) (fst r) (snd r))
      [(530, 555), (780, 805), (1200, 1300)] =
      [\<lparr>ew = 5 / 2, meanSnr = 50, absorptionFraction = 1, detected = True, points = 2\<rparr>]"
    by (simp add: sample_detect_methane[OF assms] sample_detect_elsewhere)
  have m: "matchMolecule ai (normalize (savitzkyGolay sample_spectrum 7 3))
             [(530, 555), (780, 805), (1200, 1300)] =
           \<lparr>match_detected = True, match_confidence = toFixed 3 (tanh (33 / 20)),
            match_windows =
              [\<lparr>ew = 5 / 2, meanSnr = 50, absorptionFraction = 1, detected = True, points = 2\<rparr>]\<rparr>"
    unfolding matchMolecule_def per by (simp add: assms)
  have "333 / 1000 \<le> toFixed 3 (tanh (33 / 20))"
    by (rule toFixed3_tanh) simp
  then show ?thesis unfolding m by simp
qed

lemma sample_match_oxygen:
  assumes "minSnrForDetection ai = 8"
  shows "match_detected (matchMolecule ai (normalize (savitzkyGolay sample_spectrum 7 3))
           [(687, 695), (760, 770)]) \<and>
         333 / 1000 \<le> match_confidence (matchMolecule ai
           (normalize (savitzkyGolay sample_spectrum 7 3)) [(687, 695), (760, 770)])"
proof -
  have per: "List.map_filter
      (\<lambda>r. detectInRange ai (normalize (savitzkyGolay sample_spectrum 7 3)) (fst r) (snd r))
      [(687, 695), (760, 770)] =
      [\<lparr>ew = 1 / 2, meanSnr = 50, absorptionFraction = 1 / 2, detected = True, points = 2\<rparr>]"
    by (simp add: sample_detect_oxygen[OF assms] sample_detect_elsewhere)
  have m: "matchMolecule ai (normalize (savitzkyGolay sample_spectrum 7 3))
             [(687, 695), (760, 770)] =
           \<lparr>match_detected = True, match_confidence = toFixed 3 (tanh (129 / 100)),
            match_windows =
              [\<lparr>ew = 1 / 2, meanSnr = 50, absorptionFraction = 1 / 2, detected = True, points = 2\<rparr>]\<rparr>"
    unfolding matchMolecule_def per by (simp add: assms)
  have "333 / 1000 \<le> toFixed 3 (tanh (129 / 100))"
    by (rule toFixed3_tanh) simp
  then show ?thesis unfolding m by simp
qed

lemma detected_of_member:
  assumes "(mol, info) \<in> set ms" and "match_detected info" and "match_confidence info > 0.2"
  shows "\<lparr>molecule = mol, molecule_confidence = match_confidence info,
          windows = match_windows info\<rparr> \<in> set (detected_of ms)"
  using assms(1)
proof (induction ms)
  case Nil
  then show ?case by simp
next
  case (Cons e ms)
  obtain mol' info' where e: "e = (mol', info')" by (cases e)
  show ?case
  proof (cases "(mol, info) = e")
    case True
    then show ?thesis using assms(2,3) unfolding e by (simp add: detected_of_Cons)
  next
    case False
    then have "(mol, info) \<in> set ms" using Cons.prems by simp
    then have "\<lparr>molecule = mol, molecule_confidence = match_confidence info,
          windows = match_windows info\<rparr> \<in> set (detected_of ms)"
      by (rule Cons.IH)
    then show ?thesis unfolding e by (simp add: detected_of_Cons)
  qed
qed

lemma matchTemplates_member:
  "(mol, ranges) \<in> set (templateWindows ai) \<Longrightarrow>
   (mol, matchMolecule ai nd ranges) \<in> set (matchTemplates ai nd)"
  by (force simp add: matchTemplates_def)

theorem biosignature_precedence_witness:
  "level (biosignaturePotential
     (analyzeSpectrum stub_host (new_spectroscopyAI None None None None)
        (Samples sample_spectrum) None)) = ''High''"
proof -
  let ?ai = "new_spectroscopyAI None None None None"
  let ?nd = "normalize (savitzkyGolay sample_spectrum 7 3)"
  let ?r = "analyzeSpectrum stub_host ?ai (Samples sample_spectrum) None"
  let ?o = "matchMolecule ?ai ?nd [(687, 695), (760, 770)]"
  let ?m = "matchMolecule ?ai ?nd [(530, 555), (780, 805), (1200, 1300)]"
  have tw: "templateWindows ?ai = moleculeWindows"
    and ms: "minSnrForDetection ?ai = 8"
    and sw: "smoothingWindow ?ai = 7" and po: "polyOrder ?ai = 3"
    by (simp_all add: new_spectroscopyAI_def)
  have ne: "sample_spectrum \<noteq> []" by (simp add: sample_spectrum_def)
  have dm: "detectedMolecules ?r = detected_of (matchTemplates ?ai ?nd)"
    using analyzeSpectrum_stages[OF ne, of stub_host ?ai None] unfolding sw po by (rule conjunct1)
  have "(''O2'', [(687, 695), (760, 770)]) \<in> set (templateWindows ?ai)"
    unfolding tw by (simp add: moleculeWindows_def)
  then have o_in: "(''O2'', ?o) \<in> set (matchTemplates ?ai ?nd)"
    by (rule matchTemplates_member)
  have "(''CH4'', [(530, 555), (780, 805), (1200, 1300)]) \<in> set (templateWindows ?ai)"
    unfolding tw by (simp add: moleculeWindows_def)
  then have m_in: "(''CH4'', ?m) \<in> set (matchTemplates ?ai ?nd)"
    by (rule matchTemplates_member)
  have o_ok: "match_detected ?o" "333 / 1000 \<le> match_confidence ?o"
    using sample_match_oxygen[OF ms] by blast+
  have m_ok: "match_detected ?m" "333 / 1000 \<le> match_confidence ?m"
    using sample_match_methane[OF ms] by blast+
  have o_d: "\<lparr>molecule = ''O2'', molecule_confidence = match_confidence ?o,
               windows = match_windows ?o\<rparr> \<in> set (detectedMolecules ?r)"
    unfolding dm using o_in o_ok(1) by (rule detected_of_member) (use o_ok(2) in simp)
  have m_d: "\<lparr>molecule = ''CH4'', molecule_confidence = match_confidence ?m,
               windows = match_windows ?m\<rparr> \<in> set (detectedMolecules ?r)"
    unfolding dm using m_in m_ok(1) by (rule detected_of_member) (use m_ok(2) in simp)
  show ?thesis
  proof (rule biosignature_precedence[OF tw ne o_d _ _ m_d])
    show "molecule \<lparr>molecule = ''O2'', molecule_confidence = match_confidence ?o,
               windows = match_windows ?o\<rparr> = ''O2''" by simp
    show "0.25 < molecule_confidence \<lparr>molecule = ''O2'', molecule_confidence = match_confidence ?o,
               windows = match_windows ?o\<rparr>" using o_ok(2) by simp
    show "molecule \<lparr>molecule = ''CH4'', molecule_confidence = match_confidence ?m,
               windows = match_windows ?m\<rparr> = ''CH4''" by simp
    show "0.25 < molecule_confidence \<lparr>molecule = ''CH4'', molecule_confidence = match_confidence ?m,
               windows = match_windows ?m\<rparr>" using m_ok(2) by simp
  qed
qed

end
